theory Spec2Isabelle
  imports Complex_Main
begin

section \<open>The lazy-rendering PDF viewer: data model\<close>

text \<open>
  The repository holds two variants of one Svelte page component:
  \<^item> the simple variant, \<^verbatim>\<open>src/routes/+page.svelte\<close>, which lays pages out against the
    constant \<^verbatim>\<open>MAX_WIDTH\<close> (fit-with-cap) and has no resize handling;
  \<^item> the high-quality variant, \<^verbatim>\<open>src/routes/pdf-viewer/+page.svelte\<close>, which lays pages out
    against the measured container width (fit-to-width), renders at \<^verbatim>\<open>QUALITY_SCALE\<close> times the
    display scale and has a handler that re-lays out on resize.
  Definitions of the simple variant carry the suffix \<open>_simple\<close>, those of the high-quality
  variant the suffix \<open>_hq\<close>; what both files share word for word is defined once.

  A JavaScript \<^verbatim>\<open>number\<close> is modelled by the real number it denotes. The values
  \<^verbatim>\<open>Infinity\<close> and \<^verbatim>\<open>NaN\<close> (which the code can only produce by dividing by a page's natural
  width of zero, or by a result beyond the largest double) are outside the model; statements
  about a quotient therefore assume a positive natural width. The progress callback and the
  layout of the high-quality variant round the result of each multiplication and division to
  the nearest double, \<open>binary64\<close> below; elsewhere an arithmetic expression stands for the
  operation of the code on the same operands.
\<close>

type_synonym num = real

definition Math_round :: "num \<Rightarrow> num" where
  \<comment> \<open>\<^verbatim>\<open>Math.round\<close>: the nearest integer, a tie going up.\<close>
  "Math_round x = of_int \<lfloor>x + 1 / 2\<rfloor>"

definition Math_min :: "num \<Rightarrow> num \<Rightarrow> num" where
  "Math_min a b = min a b"

subsection \<open>Rounding to the nearest double\<close>

text \<open>
  IEEE 754 binary64 arithmetic returns the exact result rounded to the nearest number with 53
  significant bits, a tie going to the even significand. \<open>ulp_exponent x\<close> is the exponent of
  the spacing of the doubles around \<open>x\<close> (from \<open>2 ^ -1022\<close> down the spacing stays \<open>2 ^ -1074\<close>:
  the subnormal numbers). A literal such as \<^verbatim>\<open>0.9\<close> denotes the double nearest to it.
\<close>

definition round_even :: "real \<Rightarrow> int" where
  "round_even y =
     (let f = \<lfloor>y\<rfloor>
      in if y - of_int f < 1 / 2 then f
         else if 1 / 2 < y - of_int f then f + 1
         else if even f then f else f + 1)"

definition ulp_exponent :: "real \<Rightarrow> int" where
  "ulp_exponent x = max \<lfloor>log 2 \<bar>x\<bar>\<rfloor> (- 1022) - 52"

definition binary64 :: "real \<Rightarrow> real" where
  "binary64 x =
     (if x = 0 then 0
      else of_int (round_even (x / 2 powr of_int (ulp_exponent x))) * 2 powr of_int (ulp_exponent x))"

text \<open>
  The exact results whose rounding is a finite double. Beyond them the code computes with
  \<^verbatim>\<open>Infinity\<close>, which \<open>binary64\<close> does not model.
\<close>

definition finite64 :: "real \<Rightarrow> bool" where
  "finite64 x \<longleftrightarrow> \<bar>x\<bar> < 2 ^ 1024 - 2 ^ 970"

subsection \<open>The document engine (pdf.js), as far as the component uses it\<close>

text \<open>
  The engine is a collaborator outside the repository. A page proxy is given by its viewport at
  scale 1 (the natural size) and by whether its render promise fulfils; \<^verbatim>\<open>getViewport\<close> at
  scale \<open>s\<close> is the natural size times \<open>s\<close>. A document proxy has a page count and
  \<^verbatim>\<open>getPage\<close>, whose promise rejects where the function below is \<open>None\<close>.
\<close>

record PageViewport =
  vwidth :: num
  vheight :: num

record PDFPageProxy =
  naturalWidth :: num
  naturalHeight :: num
  render_fulfils :: bool

definition getViewport :: "PDFPageProxy \<Rightarrow> num \<Rightarrow> PageViewport" where
  "getViewport page s = \<lparr>vwidth = naturalWidth page * s, vheight = naturalHeight page * s\<rparr>"

record PDFDocumentProxy =
  numPages :: nat
  getPage :: "nat \<Rightarrow> PDFPageProxy option"

subsection \<open>Canvas, page state, viewer state\<close>

text \<open>
  A canvas element, as far as the component touches it: the size of its backing buffer, the CSS
  size set through \<^verbatim>\<open>style\<close> (\<open>None\<close> while unset), whether \<^verbatim>\<open>getContext('2d')\<close> yields a
  context, and the two context properties the high-quality variant sets. The buffer size is
  kept as the number assigned to it (the conversion to an integer that the DOM applies on
  assignment is not modelled).
\<close>

record Canvas =
  canvas_width :: num
  canvas_height :: num
  style_width :: "num option"
  style_height :: "num option"
  context2d :: bool
  imageSmoothingEnabled :: bool
  imageSmoothingQuality :: string

record PageState =
  pageNum :: nat
  canvas :: "Canvas option"
  rendered :: bool
  height :: num
  width :: num

record PageState_hq = PageState +
  scale :: num
  actualHeight :: num
  actualWidth :: num

record 'p ViewerState =
  pdfDoc :: "PDFDocumentProxy option"
  pageCount :: nat
  loading :: bool
  loadingProgress :: num
  pages :: "'p list"

record 'p ViewerState_hq = "'p ViewerState" +
  containerWidth :: num
  containerHeight :: num

text \<open>
  What the code throws or sees rejected, and what it writes to \<^verbatim>\<open>console.error\<close> (the
  observability sink): the message with its page number, and the error.
\<close>

datatype error =
    GetDocumentRejected
  | GetPageRejected
  | RenderRejected
  | NoContext2D
  | TypeError

datatype log =
    ErrorLoadingPDF error
  | ErrorRenderingPage nat error

text \<open>
  The container element: its content box and the page numbers for which it holds a placeholder
  element (\<^verbatim>\<open>[data-page="n"]\<close>). An intersection observer is an object of the browser: the
  page index its callback closes over and whether it is observing a target.
\<close>

record Container =
  content_width :: num
  content_height :: num
  placeholders :: "nat list"

record IntersectionObserver =
  obs_page :: nat
  obs_connected :: bool

text \<open>
  The component's module-level variables and the parts of its environment it acts on:
  \<open>state\<close>, \<open>containerRef\<close> (\<open>None\<close> while unbound) and \<open>observers\<close> are the variables of
  the script; \<open>observers\<close> holds addresses into \<open>observer_heap\<close>, the observers ever
  constructed; \<open>console\<close> is the list of \<^verbatim>\<open>console.error\<close> calls and \<open>render_calls\<close> the list
  of page numbers for which \<^verbatim>\<open>page.render\<close> was invoked, both in order.
\<close>

record 's World =
  state :: 's
  containerRef :: "Container option"
  observers :: "nat list"
  observer_heap :: "IntersectionObserver list"
  console :: "log list"
  render_calls :: "nat list"

text \<open>
  The high-quality variant has one more variable, \<open>resizeObserver\<close>: \<open>None\<close> until
  \<^verbatim>\<open>onMount\<close> constructs the observer, then whether it observes the container.
\<close>

record 's World_resize = "'s World" +
  resizeObserver :: "bool option"

type_synonym World_simple = "PageState ViewerState World"
type_synonym World_hq = "PageState_hq ViewerState_hq World_resize"

definition MAX_WIDTH :: num where
  "MAX_WIDTH = 1000"

definition QUALITY_SCALE :: num where
  "QUALITY_SCALE = 2"

definition WIDTH_RATIO :: num where
  "WIDTH_RATIO = binary64 (9 / 10)"

text \<open>
  A page state is an object shared by reference between \<open>state.pages\<close>, the observer callbacks
  and the suspended calls of \<^verbatim>\<open>renderPage\<close>; the list \<open>pages\<close> is the store and the index the
  address, so a write through any reference is an update at the index.
\<close>

definition update_page_simple :: "nat \<Rightarrow> (PageState \<Rightarrow> PageState) \<Rightarrow> World_simple \<Rightarrow> World_simple" where
  "update_page_simple i f w =
     w\<lparr>state := (state w)\<lparr>pages := (pages (state w))[i := f (pages (state w) ! i)]\<rparr>\<rparr>"

definition update_page_hq :: "nat \<Rightarrow> (PageState_hq \<Rightarrow> PageState_hq) \<Rightarrow> World_hq \<Rightarrow> World_hq" where
  "update_page_hq i f w =
     w\<lparr>state := (state w)\<lparr>pages := (pages (state w))[i := f (pages (state w) ! i)]\<rparr>\<rparr>"

definition page_simple :: "World_simple \<Rightarrow> nat \<Rightarrow> PageState" where
  "page_simple w i = pages (state w) ! i"

definition page_hq :: "World_hq \<Rightarrow> nat \<Rightarrow> PageState_hq" where
  "page_hq w i = pages (state w) ! i"

section \<open>Load progress\<close>

text \<open>
  The \<^verbatim>\<open>onProgress\<close> callback of \<^verbatim>\<open>loadPDF\<close>, the same in both variants. \<open>total\<close> is \<open>None\<close>
  when the engine does not know it (\<^verbatim>\<open>undefined\<close> or \<^verbatim>\<open>NaN\<close>, for which \<^verbatim>\<open>total > 0\<close> is
  false).
\<close>

record Progress =
  loaded :: num
  total :: "num option"

definition onProgress :: "Progress \<Rightarrow> ('p, 'z) ViewerState_scheme \<Rightarrow> ('p, 'z) ViewerState_scheme" where
  "onProgress progress s =
     (case total progress of
        None \<Rightarrow> s
      | Some t \<Rightarrow>
          if t > 0
          then s\<lparr>loadingProgress := Math_round (binary64 (binary64 (loaded progress / t) * 100))\<rparr>
          else s)"

section \<open>The simple variant\<close>

subsection \<open>Layout: \<^verbatim>\<open>calculatePageDimensions\<close>\<close>

text \<open>
  The body of the loop, for the page proxy that \<^verbatim>\<open>getPage(i + 1)\<close> resolved to; \<open>scale_simple\<close>
  is the local constant \<^verbatim>\<open>scale\<close>.
\<close>

definition scale_simple :: "PDFPageProxy \<Rightarrow> num" where
  "scale_simple page = Math_min (MAX_WIDTH / vwidth (getViewport page 1)) (3 / 2)"

definition calc_body_simple :: "World_simple \<Rightarrow> nat \<Rightarrow> PDFPageProxy \<Rightarrow> World_simple" where
  "calc_body_simple w i page =
     (let scaledViewport = getViewport page (scale_simple page);
          w1 = update_page_simple i (\<lambda>p. p\<lparr>width := vwidth scaledViewport\<rparr>) w
      in update_page_simple i (\<lambda>p. p\<lparr>height := vheight scaledViewport\<rparr>) w1)"

lemma pageCount_calc_body_simple:
  "pageCount (state (calc_body_simple w i page)) = pageCount (state w)"
  by (simp add: calc_body_simple_def update_page_simple_def Let_def)

text \<open>
  The loop from iteration \<open>i\<close> on, run to its end: the world it leaves and the error the
  returned promise rejects with, if any. A rejected \<^verbatim>\<open>getPage\<close> ends the loop; a write to
  \<^verbatim>\<open>state.pages[i]\<close> beyond the list is a \<^verbatim>\<open>TypeError\<close>.
\<close>

function calc_loop_simple :: "World_simple \<Rightarrow> nat \<Rightarrow> World_simple \<times> error option" where
  "calc_loop_simple w i =
     (if i < pageCount (state w) then
        (case pdfDoc (state w) of
           None \<Rightarrow> (w, Some TypeError)
         | Some doc \<Rightarrow>
             (case getPage doc (i + 1) of
                None \<Rightarrow> (w, Some GetPageRejected)
              | Some page \<Rightarrow>
                  if i < length (pages (state w))
                  then calc_loop_simple (calc_body_simple w i page) (i + 1)
                  else (w, Some TypeError)))
      else (w, None))"
  by pat_completeness auto
termination
  by (relation "measure (\<lambda>(w, i). pageCount (state w) - i)")
     (auto simp: pageCount_calc_body_simple)

declare calc_loop_simple.simps [simp del]

definition calculatePageDimensions_simple :: "World_simple \<Rightarrow> World_simple \<times> error option" where
  "calculatePageDimensions_simple w =
     (if pdfDoc (state w) = None then (w, None) else calc_loop_simple w 0)"

subsection \<open>Rendering: \<^verbatim>\<open>renderPage\<close>\<close>

text \<open>
  \<^verbatim>\<open>renderPage\<close> suspends twice, at \<^verbatim>\<open>await getPage\<close> and at \<^verbatim>\<open>await page.render(..).promise\<close>.
  Its synchronous pieces are: the guard; \<open>renderPage_draw_simple\<close>, from the resolved page proxy
  up to the call of \<^verbatim>\<open>page.render\<close> (with the error thrown on the way, if any);
  \<open>renderPage_done_simple\<close>, the assignment after the second await; and
  \<open>renderPage_catch_simple\<close>, the \<^verbatim>\<open>catch\<close> block.
\<close>

definition renderPage_guard_simple :: "World_simple \<Rightarrow> nat \<Rightarrow> bool" where
  "renderPage_guard_simple w i \<longleftrightarrow>
     pdfDoc (state w) = None \<or> rendered (page_simple w i) \<or> canvas (page_simple w i) = None"

definition renderPage_draw_simple :: "World_simple \<Rightarrow> nat \<Rightarrow> PDFPageProxy \<Rightarrow> World_simple \<times> error option" where
  "renderPage_draw_simple w i page =
     (let viewport = getViewport page 1;
          scale' = Math_min (MAX_WIDTH / vwidth viewport) (3 / 2);
          scaledViewport = getViewport page scale'
      in case canvas (page_simple w i) of
           None \<Rightarrow> (w, Some TypeError)
         | Some c \<Rightarrow>
             (let c1 = c\<lparr>canvas_width := vwidth scaledViewport\<rparr>;
                  c2 = c1\<lparr>canvas_height := vheight scaledViewport\<rparr>;
                  w1 = update_page_simple i (\<lambda>p. p\<lparr>canvas := Some c2\<rparr>) w
              in if context2d c2
                 then (w1\<lparr>render_calls := render_calls w1 @ [pageNum (page_simple w1 i)]\<rparr>, None)
                 else (w1, Some NoContext2D)))"

definition renderPage_done_simple :: "World_simple \<Rightarrow> nat \<Rightarrow> World_simple" where
  "renderPage_done_simple w i = update_page_simple i (\<lambda>p. p\<lparr>rendered := True\<rparr>) w"

definition renderPage_catch_simple :: "World_simple \<Rightarrow> nat \<Rightarrow> error \<Rightarrow> World_simple" where
  "renderPage_catch_simple w i e =
     w\<lparr>console := console w @ [ErrorRenderingPage (pageNum (page_simple w i)) e]\<rparr>"

text \<open>
  The \<^verbatim>\<open>try\<close> block run to its end with nothing else scheduled in between, and the whole
  function: the second component is the error the block throws, respectively the error the
  promise of \<^verbatim>\<open>renderPage\<close> rejects with.
\<close>

definition renderPage_try_simple :: "World_simple \<Rightarrow> nat \<Rightarrow> World_simple \<times> error option" where
  "renderPage_try_simple w i =
     (case pdfDoc (state w) of
        None \<Rightarrow> (w, Some TypeError)
      | Some doc \<Rightarrow>
          (case getPage doc (pageNum (page_simple w i)) of
             None \<Rightarrow> (w, Some GetPageRejected)
           | Some page \<Rightarrow>
               (case renderPage_draw_simple w i page of
                  (w1, Some e) \<Rightarrow> (w1, Some e)
                | (w1, None) \<Rightarrow>
                    if render_fulfils page then (renderPage_done_simple w1 i, None)
                    else (w1, Some RenderRejected))))"

definition renderPage_simple :: "World_simple \<Rightarrow> nat \<Rightarrow> World_simple \<times> error option" where
  "renderPage_simple w i =
     (if renderPage_guard_simple w i then (w, None)
      else (case renderPage_try_simple w i of
              (w1, None) \<Rightarrow> (w1, None)
            | (w1, Some e) \<Rightarrow> (renderPage_catch_simple w1 i e, None)))"

section \<open>Suspended calls\<close>

text \<open>
  All code runs on one event loop: a call runs until its next \<^verbatim>\<open>await\<close>, and anything else may
  run before the awaited promise settles and the call resumes. A suspended call is recorded with
  what its continuation needs: the index of the page state it holds a reference to, and the
  value its promise settles with (\<open>None\<close> or \<open>False\<close>: it rejects).
  \<^item> \<open>RenderAwaitsPage\<close>: \<^verbatim>\<open>renderPage\<close> at \<^verbatim>\<open>await state.pdfDoc.getPage(..)\<close>;
  \<^item> \<open>RenderAwaitsRaster\<close>: \<^verbatim>\<open>renderPage\<close> at \<^verbatim>\<open>await page.render(..).promise\<close>, that is, a
    rasterization in flight;
  \<^item> \<open>LayoutAwaitsPage\<close>: \<^verbatim>\<open>calculatePageDimensions\<close> at \<^verbatim>\<open>await state.pdfDoc.getPage(i + 1)\<close>
    in iteration \<open>i\<close>.
\<close>

datatype task =
    RenderAwaitsPage nat "PDFPageProxy option"
  | RenderAwaitsRaster nat bool
  | LayoutAwaitsPage nat "PDFPageProxy option"

fun rasterizing :: "nat \<Rightarrow> task \<Rightarrow> bool" where
  "rasterizing i (RenderAwaitsRaster j ok) = (i = j)"
| "rasterizing i (RenderAwaitsPage j r) = False"
| "rasterizing i (LayoutAwaitsPage j r) = False"

definition in_flight :: "nat \<Rightarrow> task list \<Rightarrow> nat" where
  \<comment> \<open>The number of rasterizations of page index \<open>i\<close> that are in flight.\<close>
  "in_flight i ts = length (filter (rasterizing i) ts)"

text \<open>
  What the host delivers to the component: Svelte binding a page's canvas element
  (\<^verbatim>\<open>bind:this\<close>), the browser calling the callback of the intersection observer at an address
  with the \<^verbatim>\<open>isIntersecting\<close> flags of its entries, a resize notification with the content
  rectangle of its first entry (\<open>None\<close>: no entry), and the promise of the \<open>k\<close>-th suspended
  call settling.
\<close>

record ContentRect =
  rect_width :: num
  rect_height :: num

datatype event =
    Bind nat Canvas
  | Intersect nat "bool list"
  | Resize "ContentRect option"
  | Settle nat

subsection \<open>The simple variant on the event loop\<close>

definition renderPage_call_simple :: "World_simple \<Rightarrow> nat \<Rightarrow> World_simple \<times> task list" where
  \<comment> \<open>A call of \<^verbatim>\<open>renderPage\<close>, up to its first \<^verbatim>\<open>await\<close>.\<close>
  "renderPage_call_simple w i =
     (if renderPage_guard_simple w i then (w, [])
      else (case pdfDoc (state w) of
              None \<Rightarrow> (w, [])
            | Some doc \<Rightarrow> (w, [RenderAwaitsPage i (getPage doc (pageNum (page_simple w i)))])))"

fun resume_simple :: "task \<Rightarrow> World_simple \<Rightarrow> World_simple \<times> task list" where
  "resume_simple (RenderAwaitsPage i None) w = (renderPage_catch_simple w i GetPageRejected, [])"
| "resume_simple (RenderAwaitsPage i (Some page)) w =
     (case renderPage_draw_simple w i page of
        (w1, Some e) \<Rightarrow> (renderPage_catch_simple w1 i e, [])
      | (w1, None) \<Rightarrow> (w1, [RenderAwaitsRaster i (render_fulfils page)]))"
| "resume_simple (RenderAwaitsRaster i ok) w =
     (if ok then (renderPage_done_simple w i, [])
      else (renderPage_catch_simple w i RenderRejected, []))"
| "resume_simple (LayoutAwaitsPage i r) w = (w, [])"

text \<open>The callback given to each \<^verbatim>\<open>new IntersectionObserver\<close>: \<^verbatim>\<open>entries.forEach\<close>.\<close>

fun observer_callback_simple :: "bool list \<Rightarrow> nat \<Rightarrow> World_simple \<times> task list \<Rightarrow> World_simple \<times> task list" where
  "observer_callback_simple [] p (w, ts) = (w, ts)"
| "observer_callback_simple (isIntersecting # entries) p (w, ts) =
     (if isIntersecting \<and> \<not> rendered (page_simple w p)
      then observer_callback_simple entries p
             (fst (renderPage_call_simple w p), ts @ snd (renderPage_call_simple w p))
      else observer_callback_simple entries p (w, ts))"

text \<open>
  One event. The browser calls back only an observer that is observing; the simple variant
  registers no resize observer, so a resize reaches no code of it.
\<close>

fun step_simple :: "event \<Rightarrow> World_simple \<times> task list \<Rightarrow> World_simple \<times> task list" where
  "step_simple (Bind i c) (w, ts) = (update_page_simple i (\<lambda>p. p\<lparr>canvas := Some c\<rparr>) w, ts)"
| "step_simple (Intersect a entries) (w, ts) =
     (if a < length (observer_heap w) \<and> obs_connected (observer_heap w ! a)
      then observer_callback_simple entries (obs_page (observer_heap w ! a)) (w, ts)
      else (w, ts))"
| "step_simple (Resize entry) (w, ts) = (w, ts)"
| "step_simple (Settle k) (w, ts) =
     (if k < length ts
      then (fst (resume_simple (ts ! k) w), take k ts @ drop (Suc k) ts @ snd (resume_simple (ts ! k) w))
      else (w, ts))"

definition run_simple :: "event list \<Rightarrow> World_simple \<times> task list \<Rightarrow> World_simple \<times> task list" where
  "run_simple evs c = fold step_simple evs c"

section \<open>The high-quality variant\<close>

subsection \<open>Rendering: \<^verbatim>\<open>renderPage\<close>\<close>

definition renderPage_guard_hq :: "World_hq \<Rightarrow> nat \<Rightarrow> bool" where
  "renderPage_guard_hq w i \<longleftrightarrow>
     pdfDoc (state w) = None \<or> rendered (page_hq w i) \<or> canvas (page_hq w i) = None"

text \<open>
  From the resolved page proxy to the call of \<^verbatim>\<open>page.render\<close>: the backing buffer takes the
  size of the viewport at \<^verbatim>\<open>renderScale\<close>, the CSS size the page's display size.
\<close>

definition renderPage_draw_hq :: "World_hq \<Rightarrow> nat \<Rightarrow> PDFPageProxy \<Rightarrow> World_hq \<times> error option" where
  "renderPage_draw_hq w i page =
     (let renderScale = scale (page_hq w i) * QUALITY_SCALE;
          viewport = getViewport page renderScale
      in case canvas (page_hq w i) of
           None \<Rightarrow> (w, Some TypeError)
         | Some c \<Rightarrow>
             (let c1 = c\<lparr>canvas_width := vwidth viewport\<rparr>;
                  c2 = c1\<lparr>canvas_height := vheight viewport\<rparr>;
                  c3 = c2\<lparr>style_width := Some (width (page_hq w i))\<rparr>;
                  c4 = c3\<lparr>style_height := Some (height (page_hq w i))\<rparr>
              in if context2d c4
                 then (let c5 = c4\<lparr>imageSmoothingEnabled := True\<rparr>;
                           c6 = c5\<lparr>imageSmoothingQuality := ''high''\<rparr>;
                           w1 = update_page_hq i (\<lambda>p. p\<lparr>canvas := Some c6\<rparr>) w
                       in (w1\<lparr>render_calls := render_calls w1 @ [pageNum (page_hq w1 i)]\<rparr>, None))
                 else (update_page_hq i (\<lambda>p. p\<lparr>canvas := Some c4\<rparr>) w, Some NoContext2D)))"

definition renderPage_done_hq :: "World_hq \<Rightarrow> nat \<Rightarrow> World_hq" where
  "renderPage_done_hq w i = update_page_hq i (\<lambda>p. p\<lparr>rendered := True\<rparr>) w"

definition renderPage_catch_hq :: "World_hq \<Rightarrow> nat \<Rightarrow> error \<Rightarrow> World_hq" where
  "renderPage_catch_hq w i e =
     w\<lparr>console := console w @ [ErrorRenderingPage (pageNum (page_hq w i)) e]\<rparr>"

definition renderPage_try_hq :: "World_hq \<Rightarrow> nat \<Rightarrow> World_hq \<times> error option" where
  "renderPage_try_hq w i =
     (case pdfDoc (state w) of
        None \<Rightarrow> (w, Some TypeError)
      | Some doc \<Rightarrow>
          (case getPage doc (pageNum (page_hq w i)) of
             None \<Rightarrow> (w, Some GetPageRejected)
           | Some page \<Rightarrow>
               (case renderPage_draw_hq w i page of
                  (w1, Some e) \<Rightarrow> (w1, Some e)
                | (w1, None) \<Rightarrow>
                    if render_fulfils page then (renderPage_done_hq w1 i, None)
                    else (w1, Some RenderRejected))))"

definition renderPage_hq :: "World_hq \<Rightarrow> nat \<Rightarrow> World_hq \<times> error option" where
  \<comment> \<open>The whole function, run to its end with nothing else scheduled in between.\<close>
  "renderPage_hq w i =
     (if renderPage_guard_hq w i then (w, None)
      else (case renderPage_try_hq w i of
              (w1, None) \<Rightarrow> (w1, None)
            | (w1, Some e) \<Rightarrow> (renderPage_catch_hq w1 i e, None)))"

definition renderPage_call_hq :: "World_hq \<Rightarrow> nat \<Rightarrow> World_hq \<times> task list" where
  \<comment> \<open>A call of \<^verbatim>\<open>renderPage\<close>, up to its first \<^verbatim>\<open>await\<close>.\<close>
  "renderPage_call_hq w i =
     (if renderPage_guard_hq w i then (w, [])
      else (case pdfDoc (state w) of
              None \<Rightarrow> (w, [])
            | Some doc \<Rightarrow> (w, [RenderAwaitsPage i (getPage doc (pageNum (page_hq w i)))])))"

subsection \<open>Layout: \<^verbatim>\<open>calculatePageDimensions\<close> and \<^verbatim>\<open>handleResize\<close>\<close>

text \<open>
  The local constants of the loop body, for the page proxy \<^verbatim>\<open>getPage(i + 1)\<close> resolved to.
\<close>

definition targetWidth_hq :: "World_hq \<Rightarrow> num" where
  "targetWidth_hq w = binary64 (containerWidth (state w) * WIDTH_RATIO)"

definition scale_hq :: "World_hq \<Rightarrow> PDFPageProxy \<Rightarrow> num" where
  "scale_hq w page = binary64 (targetWidth_hq w / vwidth (getViewport page 1))"

definition scaledWidth_hq :: "World_hq \<Rightarrow> PDFPageProxy \<Rightarrow> num" where
  "scaledWidth_hq w page = binary64 (vwidth (getViewport page 1) * scale_hq w page)"

definition scaledHeight_hq :: "World_hq \<Rightarrow> PDFPageProxy \<Rightarrow> num" where
  "scaledHeight_hq w page = binary64 (vheight (getViewport page 1) * scale_hq w page)"

definition calc_store_hq :: "World_hq \<Rightarrow> nat \<Rightarrow> PDFPageProxy \<Rightarrow> World_hq" where
  \<comment> \<open>The five assignments to \<^verbatim>\<open>state.pages[i]\<close>.\<close>
  "calc_store_hq w i page =
     (let viewport = getViewport page 1;
          w1 = update_page_hq i (\<lambda>p. p\<lparr>actualWidth := vwidth viewport\<rparr>) w;
          w2 = update_page_hq i (\<lambda>p. p\<lparr>actualHeight := vheight viewport\<rparr>) w1;
          w3 = update_page_hq i (\<lambda>p. p\<lparr>width := scaledWidth_hq w2 page\<rparr>) w2;
          w4 = update_page_hq i (\<lambda>p. p\<lparr>height := scaledHeight_hq w3 page\<rparr>) w3
      in update_page_hq i (\<lambda>p. p\<lparr>scale := scale_hq w4 page\<rparr>) w4)"

definition calc_body_hq :: "World_hq \<Rightarrow> nat \<Rightarrow> PDFPageProxy \<Rightarrow> World_hq \<times> task list" where
  \<comment> \<open>One iteration after its \<^verbatim>\<open>await\<close>; the call of \<^verbatim>\<open>renderPage\<close> is not awaited.\<close>
  "calc_body_hq w i page =
     (let w1 = calc_store_hq w i page
      in if rendered (page_hq w1 i) \<and> canvas (page_hq w1 i) \<noteq> None
         then renderPage_call_hq (update_page_hq i (\<lambda>p. p\<lparr>rendered := False\<rparr>) w1) i
         else (w1, []))"

lemma pageCount_update_page_hq:
  "pageCount (state (update_page_hq i f w)) = pageCount (state w)"
  by (simp add: update_page_hq_def)

lemma pageCount_calc_store_hq:
  "pageCount (state (calc_store_hq w i page)) = pageCount (state w)"
  by (simp add: calc_store_hq_def Let_def pageCount_update_page_hq)

lemma pageCount_renderPage_call_hq:
  "pageCount (state (fst (renderPage_call_hq w i))) = pageCount (state w)"
  by (simp add: renderPage_call_hq_def split: option.splits)

lemma pageCount_calc_body_hq:
  "pageCount (state (fst (calc_body_hq w i page))) = pageCount (state w)"
  by (simp add: calc_body_hq_def Let_def pageCount_renderPage_call_hq
      pageCount_update_page_hq pageCount_calc_store_hq)

text \<open>
  The loop from iteration \<open>i\<close> on, run to its end with nothing else scheduled in between: the
  world it leaves, the calls of \<^verbatim>\<open>renderPage\<close> it has started (still suspended) after those
  in \<open>ts\<close>, and the error the returned promise rejects with, if any.
\<close>

function calc_loop_hq :: "World_hq \<Rightarrow> task list \<Rightarrow> nat \<Rightarrow> World_hq \<times> task list \<times> error option" where
  "calc_loop_hq w ts i =
     (if i < pageCount (state w) then
        (case pdfDoc (state w) of
           None \<Rightarrow> (w, ts, Some TypeError)
         | Some doc \<Rightarrow>
             (case getPage doc (i + 1) of
                None \<Rightarrow> (w, ts, Some GetPageRejected)
              | Some page \<Rightarrow>
                  if i < length (pages (state w))
                  then calc_loop_hq (fst (calc_body_hq w i page)) (ts @ snd (calc_body_hq w i page)) (i + 1)
                  else (w, ts, Some TypeError)))
      else (w, ts, None))"
  by pat_completeness auto
termination
  by (relation "measure (\<lambda>(w, ts, i). pageCount (state w) - i)")
     (auto simp: pageCount_calc_body_hq)

declare calc_loop_hq.simps [simp del]

definition calculatePageDimensions_hq :: "World_hq \<Rightarrow> World_hq \<times> task list \<times> error option" where
  "calculatePageDimensions_hq w =
     (if pdfDoc (state w) = None \<or> containerWidth (state w) = 0 then (w, [], None)
      else calc_loop_hq w [] 0)"

definition handleResize_hq :: "ContentRect option \<Rightarrow> World_hq \<Rightarrow> World_hq \<times> task list \<times> error option" where
  \<comment> \<open>\<^verbatim>\<open>handleResize\<close> with the layout run to its end; the layout's promise is dropped.\<close>
  "handleResize_hq entry w =
     (case entry of
        None \<Rightarrow> (w, [], None)
      | Some r \<Rightarrow>
          (let s1 = (state w)\<lparr>containerWidth := rect_width r\<rparr>;
               s2 = s1\<lparr>containerHeight := rect_height r\<rparr>
           in calculatePageDimensions_hq (w\<lparr>state := s2\<rparr>)))"

subsection \<open>The high-quality variant on the event loop\<close>

definition calc_next_hq :: "World_hq \<Rightarrow> nat \<Rightarrow> task list" where
  \<comment> \<open>The loop test of iteration \<open>i\<close> and, if it passes, the suspension at \<^verbatim>\<open>getPage(i + 1)\<close>.\<close>
  "calc_next_hq w i =
     (if i < pageCount (state w)
      then (case pdfDoc (state w) of
              None \<Rightarrow> []
            | Some doc \<Rightarrow> [LayoutAwaitsPage i (getPage doc (i + 1))])
      else [])"

definition calculatePageDimensions_call_hq :: "World_hq \<Rightarrow> World_hq \<times> task list" where
  \<comment> \<open>A call of \<^verbatim>\<open>calculatePageDimensions\<close>, up to its first \<^verbatim>\<open>await\<close>.\<close>
  "calculatePageDimensions_call_hq w =
     (if pdfDoc (state w) = None \<or> containerWidth (state w) = 0 then (w, [])
      else (w, calc_next_hq w 0))"

definition handleResize_call_hq :: "ContentRect option \<Rightarrow> World_hq \<Rightarrow> World_hq \<times> task list" where
  "handleResize_call_hq entry w =
     (case entry of
        None \<Rightarrow> (w, [])
      | Some r \<Rightarrow>
          (let s1 = (state w)\<lparr>containerWidth := rect_width r\<rparr>;
               s2 = s1\<lparr>containerHeight := rect_height r\<rparr>
           in calculatePageDimensions_call_hq (w\<lparr>state := s2\<rparr>)))"

text \<open>
  A suspended call resumes and runs to its next \<^verbatim>\<open>await\<close> or to its end. A layout whose
  \<^verbatim>\<open>getPage\<close> rejects, or that writes beyond \<open>pages\<close>, ends by rejecting its own promise, which
  \<^verbatim>\<open>handleResize\<close> does not look at.
\<close>

fun resume_hq :: "task \<Rightarrow> World_hq \<Rightarrow> World_hq \<times> task list" where
  "resume_hq (RenderAwaitsPage i None) w = (renderPage_catch_hq w i GetPageRejected, [])"
| "resume_hq (RenderAwaitsPage i (Some page)) w =
     (case renderPage_draw_hq w i page of
        (w1, Some e) \<Rightarrow> (renderPage_catch_hq w1 i e, [])
      | (w1, None) \<Rightarrow> (w1, [RenderAwaitsRaster i (render_fulfils page)]))"
| "resume_hq (RenderAwaitsRaster i ok) w =
     (if ok then (renderPage_done_hq w i, [])
      else (renderPage_catch_hq w i RenderRejected, []))"
| "resume_hq (LayoutAwaitsPage i None) w = (w, [])"
| "resume_hq (LayoutAwaitsPage i (Some page)) w =
     (if i < length (pages (state w))
      then (fst (calc_body_hq w i page),
            snd (calc_body_hq w i page) @ calc_next_hq (fst (calc_body_hq w i page)) (i + 1))
      else (w, []))"

fun observer_callback_hq :: "bool list \<Rightarrow> nat \<Rightarrow> World_hq \<times> task list \<Rightarrow> World_hq \<times> task list" where
  "observer_callback_hq [] p (w, ts) = (w, ts)"
| "observer_callback_hq (isIntersecting # entries) p (w, ts) =
     (if isIntersecting \<and> \<not> rendered (page_hq w p)
      then observer_callback_hq entries p
             (fst (renderPage_call_hq w p), ts @ snd (renderPage_call_hq w p))
      else observer_callback_hq entries p (w, ts))"

text \<open>
  One event. The browser calls back only an intersection observer that is observing, and calls
  \<^verbatim>\<open>handleResize\<close> only while the resize observer observes the container.
\<close>

fun step_hq :: "event \<Rightarrow> World_hq \<times> task list \<Rightarrow> World_hq \<times> task list" where
  "step_hq (Bind i c) (w, ts) = (update_page_hq i (\<lambda>p. p\<lparr>canvas := Some c\<rparr>) w, ts)"
| "step_hq (Intersect a entries) (w, ts) =
     (if a < length (observer_heap w) \<and> obs_connected (observer_heap w ! a)
      then observer_callback_hq entries (obs_page (observer_heap w ! a)) (w, ts)
      else (w, ts))"
| "step_hq (Resize entry) (w, ts) =
     (if resizeObserver w = Some True
      then (fst (handleResize_call_hq entry w), ts @ snd (handleResize_call_hq entry w))
      else (w, ts))"
| "step_hq (Settle k) (w, ts) =
     (if k < length ts
      then (fst (resume_hq (ts ! k) w), take k ts @ drop (Suc k) ts @ snd (resume_hq (ts ! k) w))
      else (w, ts))"

definition run_hq :: "event list \<Rightarrow> World_hq \<times> task list \<Rightarrow> World_hq \<times> task list" where
  "run_hq evs c = fold step_hq evs c"

section \<open>Visibility tracking and the document session (both variants)\<close>

text \<open>
  \<^verbatim>\<open>observer.disconnect()\<close> on the observer at an address, and one turn of
  \<^verbatim>\<open>state.pages.forEach\<close> in \<^verbatim>\<open>setupIntersectionObservers\<close>: a new observer is constructed; if
  the container is bound and holds the placeholder of page \<open>index + 1\<close>, the observer observes it
  and its address is pushed on \<open>observers\<close>.
\<close>

definition disconnect :: "nat \<Rightarrow> IntersectionObserver list \<Rightarrow> IntersectionObserver list" where
  "disconnect a h = h[a := (h ! a)\<lparr>obs_connected := False\<rparr>]"

definition querySelector :: "Container option \<Rightarrow> nat \<Rightarrow> bool" where
  \<comment> \<open>Whether \<^verbatim>\<open>containerRef?.querySelector('[data-page="n"]')\<close> finds an element.\<close>
  "querySelector r n = (case r of None \<Rightarrow> False | Some c \<Rightarrow> n \<in> set (placeholders c))"

definition setup_page :: "nat \<Rightarrow> ('s, 'x) World_scheme \<Rightarrow> ('s, 'x) World_scheme" where
  "setup_page index w =
     (if querySelector (containerRef w) (index + 1)
      then w\<lparr>observer_heap := observer_heap w @ [\<lparr>obs_page = index, obs_connected = True\<rparr>],
             observers := observers w @ [length (observer_heap w)]\<rparr>
      else w\<lparr>observer_heap := observer_heap w @ [\<lparr>obs_page = index, obs_connected = False\<rparr>]\<rparr>)"

definition setupIntersectionObservers ::
  "(('p, 'z) ViewerState_scheme, 'x) World_scheme \<Rightarrow> (('p, 'z) ViewerState_scheme, 'x) World_scheme" where
  "setupIntersectionObservers w =
     (let w1 = w\<lparr>observer_heap := fold disconnect (observers w) (observer_heap w)\<rparr>;
          w2 = w1\<lparr>observers := []\<rparr>
      in fold setup_page [0..<length (pages (state w2))] w2)"

definition onDestroy_simple :: "World_simple \<Rightarrow> World_simple" where
  "onDestroy_simple w = w\<lparr>observer_heap := fold disconnect (observers w) (observer_heap w)\<rparr>"

text \<open>
  \<^verbatim>\<open>onMount\<close> of the high-quality variant. \<^verbatim>\<open>loadPDF()\<close> runs to its first \<^verbatim>\<open>await\<close>, which
  changes no variable; then the resize observer is constructed and, \<^verbatim>\<open>if (containerRef)\<close>,
  observes the container. The template has the container element only in the branch shown once
  \<open>state.loading\<close> is false, and \<open>loading\<close> is true initially, so at \<^verbatim>\<open>onMount\<close> of the
  initial world \<open>containerRef\<close> is unbound.
\<close>

definition onMount_hq :: "World_hq \<Rightarrow> World_hq" where
  "onMount_hq w = w\<lparr>resizeObserver := Some (containerRef w \<noteq> None)\<rparr>"

text \<open>
  \<^verbatim>\<open>loadPDF\<close> in pieces: the script's initial values; the assignments once the loading task
  has resolved to a document, up to \<^verbatim>\<open>state.loading = false\<close>; the \<^verbatim>\<open>catch\<close> block; and Svelte
  binding \<^verbatim>\<open>containerRef\<close> once the page list is shown.
\<close>

definition initial_simple :: World_simple where
  "initial_simple =
     \<lparr>state = \<lparr>pdfDoc = None, pageCount = 0, loading = True, loadingProgress = 0, pages = []\<rparr>,
      containerRef = None, observers = [], observer_heap = [], console = [], render_calls = []\<rparr>"

definition initial_hq :: World_hq where
  "initial_hq =
     \<lparr>state = \<lparr>pdfDoc = None, pageCount = 0, loading = True, loadingProgress = 0, pages = [],
               containerWidth = 0, containerHeight = 0\<rparr>,
      containerRef = None, observers = [], observer_heap = [], console = [], render_calls = [],
      resizeObserver = None\<rparr>"

definition new_page_simple :: "nat \<Rightarrow> PageState" where
  "new_page_simple i = \<lparr>pageNum = i + 1, canvas = None, rendered = False, height = 0, width = 0\<rparr>"

definition new_page_hq :: "nat \<Rightarrow> PageState_hq" where
  "new_page_hq i =
     \<lparr>pageNum = i + 1, canvas = None, rendered = False, height = 0, width = 0,
      scale = 1, actualHeight = 0, actualWidth = 0\<rparr>"

definition loadPDF_opened_simple :: "PDFDocumentProxy \<Rightarrow> World_simple \<Rightarrow> World_simple" where
  "loadPDF_opened_simple doc w =
     (let s1 = (state w)\<lparr>pdfDoc := Some doc\<rparr>;
          s2 = s1\<lparr>pageCount := numPages doc\<rparr>;
          s3 = s2\<lparr>pages := map new_page_simple [0..<pageCount s2]\<rparr>
      in w\<lparr>state := s3\<lparr>loading := False\<rparr>\<rparr>)"

definition loadPDF_opened_hq :: "PDFDocumentProxy \<Rightarrow> World_hq \<Rightarrow> World_hq" where
  "loadPDF_opened_hq doc w =
     (let s1 = (state w)\<lparr>pdfDoc := Some doc\<rparr>;
          s2 = s1\<lparr>pageCount := numPages doc\<rparr>;
          s3 = s2\<lparr>pages := map new_page_hq [0..<pageCount s2]\<rparr>
      in w\<lparr>state := s3\<lparr>loading := False\<rparr>\<rparr>)"

definition loadPDF_catch ::
  "error \<Rightarrow> (('p, 'z) ViewerState_scheme, 'x) World_scheme \<Rightarrow> (('p, 'z) ViewerState_scheme, 'x) World_scheme" where
  "loadPDF_catch e w = w\<lparr>console := console w @ [ErrorLoadingPDF e], state := (state w)\<lparr>loading := False\<rparr>\<rparr>"

definition bind_container :: "Container \<Rightarrow> ('s, 'x) World_scheme \<Rightarrow> ('s, 'x) World_scheme" where
  "bind_container c w = w\<lparr>containerRef := Some c\<rparr>"

definition loadPDF_layout_simple :: "World_simple \<Rightarrow> World_simple" where
  \<comment> \<open>\<^verbatim>\<open>await calculatePageDimensions(); setupIntersectionObservers();\<close> inside the \<^verbatim>\<open>try\<close>.\<close>
  "loadPDF_layout_simple w =
     (case calculatePageDimensions_simple w of
        (w1, None) \<Rightarrow> setupIntersectionObservers w1
      | (w1, Some e) \<Rightarrow> loadPDF_catch e w1)"

definition loadPDF_layout_hq :: "World_hq \<Rightarrow> World_hq \<times> task list" where
  "loadPDF_layout_hq w =
     (case calculatePageDimensions_hq w of
        (w1, ts, None) \<Rightarrow> (setupIntersectionObservers w1, ts)
      | (w1, ts, Some e) \<Rightarrow> (loadPDF_catch e w1, ts))"

section \<open>Auxiliary notions for the statements\<close>

text \<open>A page state of the simple variant once the layout has written the size of \<open>page\<close>.\<close>

definition laid_out_simple :: "PDFPageProxy \<Rightarrow> PageState \<Rightarrow> PageState" where
  "laid_out_simple page p =
     p\<lparr>width := naturalWidth page * scale_simple page, height := naturalHeight page * scale_simple page\<rparr>"

text \<open>
  A page state of the high-quality variant once an iteration of the layout has run for \<open>page\<close>
  at container width \<open>cw\<close>: the natural size, the display size and the scale are written, and a
  page that was rendered on a canvas is marked as not rendered.
\<close>

definition laid_out_hq :: "num \<Rightarrow> PDFPageProxy \<Rightarrow> PageState_hq \<Rightarrow> PageState_hq" where
  "laid_out_hq cw page p =
     (let s = binary64 (binary64 (cw * WIDTH_RATIO) / naturalWidth page);
          q = p\<lparr>actualWidth := naturalWidth page,
                 actualHeight := naturalHeight page,
                 width := binary64 (naturalWidth page * s),
                 height := binary64 (naturalHeight page * s),
                 scale := s\<rparr>
      in if rendered p \<and> canvas p \<noteq> None then q\<lparr>rendered := False\<rparr> else q)"


text \<open>
  \<open>tracked\<close>: every observer that is observing is held in \<open>observers\<close>, so the component can
  still disconnect it. \<open>new_observer\<close> is the observer one turn of the setup loop constructs.
\<close>

definition tracked :: "('s, 'x) World_scheme \<Rightarrow> bool" where
  "tracked w \<longleftrightarrow>
     (\<forall>a<length (observer_heap w). obs_connected (observer_heap w ! a) \<longrightarrow> a \<in> set (observers w))"

definition new_observer :: "Container option \<Rightarrow> nat \<Rightarrow> IntersectionObserver" where
  "new_observer r index = \<lparr>obs_page = index, obs_connected = querySelector r (index + 1)\<rparr>"

text \<open>
  \<open>sized_for doc p\<close>: the canvas of page state \<open>p\<close> is sized for what \<open>p\<close> now holds. Its
  backing buffer has the size of the viewport of the page's proxy at the page's scale times
  \<^verbatim>\<open>QUALITY_SCALE\<close>, and its CSS size is the page's display size.
\<close>

definition sized_for :: "PDFDocumentProxy \<Rightarrow> PageState_hq \<Rightarrow> bool" where
  "sized_for doc p =
     (case canvas p of
        None \<Rightarrow> False
      | Some c \<Rightarrow>
          (case getPage doc (pageNum p) of
             None \<Rightarrow> False
           | Some page \<Rightarrow>
               canvas_width c = vwidth (getViewport page (scale p * QUALITY_SCALE)) \<and>
               canvas_height c = vheight (getViewport page (scale p * QUALITY_SCALE)) \<and>
               style_width c = Some (width p) \<and>
               style_height c = Some (height p)))"


definition unlaid :: "PageState_hq \<Rightarrow> bool" where
  "unlaid p \<longleftrightarrow> scale p = 1 \<and> width p = 0 \<and> height p = 0"

fun task_ok :: "PDFDocumentProxy \<Rightarrow> PageState_hq list \<Rightarrow> task \<Rightarrow> bool" where
  "task_ok doc ps (RenderAwaitsPage i r) = (i < length ps \<and> r = getPage doc (pageNum (ps ! i)))"
| "task_ok doc ps (RenderAwaitsRaster i ok) = (i < length ps \<and> sized_for doc (ps ! i))"
| "task_ok doc ps (LayoutAwaitsPage i r) = False"

definition quiet :: "PDFDocumentProxy \<Rightarrow> World_hq \<times> task list \<Rightarrow> bool" where
  "quiet doc cfg \<longleftrightarrow>
     resizeObserver (fst cfg) = Some False \<and>
     pdfDoc (state (fst cfg)) = Some doc \<and>
     containerWidth (state (fst cfg)) = 0 \<and>
     (\<forall>a<length (observer_heap (fst cfg)).
        obs_page (observer_heap (fst cfg) ! a) < length (pages (state (fst cfg)))) \<and>
     (\<forall>t\<in>set (snd cfg). task_ok doc (pages (state (fst cfg))) t) \<and>
     (\<forall>p\<in>set (pages (state (fst cfg))). unlaid p \<and> (rendered p \<longrightarrow> sized_for doc p))"



section \<open>Example documents\<close>

text \<open>Documents used to instantiate the properties below: every page has the same size.\<close>

definition page_2000 :: PDFPageProxy where
  "page_2000 = \<lparr>naturalWidth = 2000, naturalHeight = 1000, render_fulfils = True\<rparr>"

definition doc_2000 :: PDFDocumentProxy where
  "doc_2000 = \<lparr>numPages = 2, getPage = (\<lambda>n. if 0 < n \<and> n \<le> 2 then Some page_2000 else None)\<rparr>"

definition page_600 :: PDFPageProxy where
  "page_600 = \<lparr>naturalWidth = 600, naturalHeight = 800, render_fulfils = True\<rparr>"

definition doc_600 :: PDFDocumentProxy where
  "doc_600 = \<lparr>numPages = 3, getPage = (\<lambda>n. if 0 < n \<and> n \<le> 3 then Some page_600 else None)\<rparr>"

definition page_612 :: PDFPageProxy where
  "page_612 = \<lparr>naturalWidth = 612, naturalHeight = 792, render_fulfils = True\<rparr>"

definition page_unrenderable :: PDFPageProxy where
  "page_unrenderable = \<lparr>naturalWidth = 600, naturalHeight = 800, render_fulfils = False\<rparr>"

text \<open>A document whose first page cannot be rasterized and whose second page cannot be fetched.\<close>

definition doc_failing :: PDFDocumentProxy where
  "doc_failing = \<lparr>numPages = 2, getPage = (\<lambda>n. if n = 1 then Some page_unrenderable else None)\<rparr>"

definition fresh_canvas :: Canvas where
  "fresh_canvas =
     \<lparr>canvas_width = 300, canvas_height = 150, style_width = None, style_height = None,
      context2d = True, imageSmoothingEnabled = True, imageSmoothingQuality = ''low''\<rparr>"

definition container_3 :: Container where
  "container_3 = \<lparr>content_width = 1000, content_height = 800, placeholders = [1, 2, 3]\<rparr>"

text \<open>
  The simple viewer after \<^verbatim>\<open>loadPDF\<close> has run to its end on the three-page document, with the
  canvases of the first two pages bound. \<open>ready_hq\<close> is the same for the high-quality viewer
  with the resize observer set by hand to observe the container (which \<^verbatim>\<open>onMount\<close> does not
  achieve), followed by a resize notification for width 1000 whose layout has run to its end.
  \<open>failing_simple\<close> and \<open>failing_hq\<close> are the viewers with the failing document open and both
  canvases bound.
\<close>

definition ready_simple :: World_simple where
  "ready_simple = fst (run_simple [Bind 0 fresh_canvas, Bind 1 fresh_canvas]
     (loadPDF_layout_simple (bind_container container_3 (loadPDF_opened_simple doc_600 initial_simple)), []))"

definition ready_hq :: World_hq where
  "ready_hq = fst (run_hq
     [Bind 0 fresh_canvas, Bind 1 fresh_canvas,
      Resize (Some \<lparr>rect_width = 1000, rect_height = 800\<rparr>), Settle 0, Settle 0, Settle 0]
     (loadPDF_layout_hq (bind_container container_3
        (loadPDF_opened_hq doc_600 (initial_hq\<lparr>resizeObserver := Some True\<rparr>)))))"

definition failing_simple :: World_simple where
  "failing_simple = fst (run_simple [Bind 0 fresh_canvas, Bind 1 fresh_canvas]
     (loadPDF_opened_simple doc_failing initial_simple, []))"

definition failing_hq :: World_hq where
  "failing_hq = fst (run_hq [Bind 0 fresh_canvas, Bind 1 fresh_canvas]
     (loadPDF_opened_hq doc_failing initial_hq, []))"

text \<open>
  The high-quality viewer as the component reaches it: mounted from its initial state, the
  document opened, the container (and with it every page's placeholder) shown, the first layout
  and the observer setup of \<^verbatim>\<open>loadPDF\<close> done.
\<close>

definition mounted_hq :: "PDFDocumentProxy \<Rightarrow> Container \<Rightarrow> World_hq \<times> task list" where
  "mounted_hq doc c =
     loadPDF_layout_hq (bind_container c (loadPDF_opened_hq doc (onMount_hq initial_hq)))"





text \<open>
  A schedule for \<open>ready_hq\<close>: the first page is rendered; the container is
  resized to width 500 and the layout reaches the first page, which it marks as not rendered
  and starts to render again; the observer of the page calls back before that render has
  finished; then both \<^verbatim>\<open>getPage\<close> promises resolve.
\<close>

definition resize_visibility_run :: "event list" where
  "resize_visibility_run =
     [Intersect 0 [True], Settle 0, Settle 0,
      Resize (Some \<lparr>rect_width = 500, rect_height = 800\<rparr>), Settle 0,
      Intersect 0 [True], Settle 0, Settle 1]"

section \<open>Properties\<close>

subsection \<open>Evaluating the rounding\<close>

text \<open>The rounding of a number whose binary exponent \<open>e\<close> is known.\<close>

lemma ulp_exponent_eq:
  assumes "2 powr of_int e \<le> \<bar>x\<bar>" and "\<bar>x\<bar> < 2 powr of_int (e + 1)" and "- 1022 \<le> e"
  shows "ulp_exponent x = e - 52"
proof -
  have "0 < 2 powr real_of_int e" by simp
  then have pos: "0 < \<bar>x\<bar>" using assms(1) by (rule less_le_trans)
  have "\<lfloor>log 2 \<bar>x\<bar>\<rfloor> = e"
    using assms(1,2) floor_log_eq_powr_iff[OF pos, of 2 e] by simp
  then show ?thesis using assms(3) by (simp add: ulp_exponent_def)
qed

lemma binary64_eval:
  assumes "2 powr of_int e \<le> \<bar>x\<bar>" and "\<bar>x\<bar> < 2 powr of_int (e + 1)" and "- 1022 \<le> e"
  shows "binary64 x = of_int (round_even (x / 2 powr of_int (e - 52))) * 2 powr of_int (e - 52)"
proof -
  have "0 < 2 powr real_of_int e" by simp
  then have "0 < \<bar>x\<bar>" using assms(1) by (rule less_le_trans)
  then have "x \<noteq> 0" by simp
  then show ?thesis
    by (simp add: binary64_def ulp_exponent_eq[OF assms])
qed

lemmas binary64_simps = powr_neg_numeral round_even_def Let_def

lemma WIDTH_RATIO_value: "WIDTH_RATIO = 8106479329266893 / 2 ^ 53"
  unfolding WIDTH_RATIO_def
  using binary64_eval[of "- 1" "9 / 10"] by (simp add: binary64_simps)

lemma binary64_target:
  "binary64 (1000 * WIDTH_RATIO) = 900"
  "binary64 (500 * WIDTH_RATIO) = 450"
  "binary64 (1001 * WIDTH_RATIO) = 7924400203707187 / 2 ^ 43"
  unfolding WIDTH_RATIO_value
  using binary64_eval[of 9 "1000 * (8106479329266893 / 2 ^ 53)"]
        binary64_eval[of 8 "500 * (8106479329266893 / 2 ^ 53)"]
        binary64_eval[of 9 "1001 * (8106479329266893 / 2 ^ 53)"]
  by (simp_all add: binary64_simps)

lemma binary64_exact:
  "binary64 (3 / 2) = 3 / 2"
  "binary64 (3 / 4) = 3 / 4"
  "binary64 (1 / 4) = 1 / 4"
  "binary64 25 = 25"
  "binary64 450 = 450"
  "binary64 600 = 600"
  "binary64 900 = 900"
  "binary64 1200 = 1200"
  using binary64_eval[of 0 "3 / 2"] binary64_eval[of "- 1" "3 / 4"] binary64_eval[of "- 2" "1 / 4"]
        binary64_eval[of 4 25] binary64_eval[of 8 450] binary64_eval[of 9 600]
        binary64_eval[of 9 900] binary64_eval[of 10 1200]
  by (simp_all add: binary64_simps)


lemma binary64_612:
  "binary64 (900 / 612) = 827867578560753 / 2 ^ 49"
  "binary64 (612 * (827867578560753 / 2 ^ 49)) = 7916483719987201 / 2 ^ 43"
  "binary64 (792 * (827867578560753 / 2 ^ 49)) = 5122430642344659 / 2 ^ 42"
  using binary64_eval[of 0 "900 / 612"]
        binary64_eval[of 9 "612 * (827867578560753 / 2 ^ 49)"]
        binary64_eval[of 10 "792 * (827867578560753 / 2 ^ 49)"]
  by (simp_all add: binary64_simps)

lemma binary64_progress:
  "binary64 (29 / 200) = 5224175567749775 / 2 ^ 55"
  "binary64 (5224175567749775 / 2 ^ 55 * 100) = 8162774324609023 / 2 ^ 49"
  "binary64 (50 / 200) = 1 / 4"
  "binary64 (1 / 4 * 100) = 25"
  using binary64_eval[of "- 3" "29 / 200"] binary64_eval[of 3 "5224175567749775 / 2 ^ 55 * 100"]
        binary64_eval[of "- 2" "50 / 200"] binary64_eval[of 4 "1 / 4 * 100"]
  by (simp_all add: binary64_simps)

lemma Math_round_progress:
  "Math_round (8162774324609023 / 2 ^ 49) = 14"
  "Math_round 25 = 25"
  by (simp_all add: Math_round_def)

subsection \<open>Load progress\<close>

text \<open>
  C6. For a progress callback whose total is known and greater than zero, the reported progress
  is the percentage the code computes from \<open>loaded / total\<close>: the quotient and its product
  with 100, each rounded to the nearest double (both in the range of the finite doubles), then
  \<^verbatim>\<open>Math.round\<close>. For a total that is unknown, zero or negative the viewer state, and with it
  the progress, is left as it was, and nothing is divided. Loaded = 50 with total = 200 reports
  25.
\<close>

theorem onProgress_percentage:
  "(total progress = Some t \<and> 0 < t \<and>
    finite64 (loaded progress / t) \<and> finite64 (binary64 (loaded progress / t) * 100) \<longrightarrow>
      loadingProgress (onProgress progress s) =
        Math_round (binary64 (binary64 (loaded progress / t) * 100))) \<and>
   (total progress = None \<or> total progress = Some t \<and> t \<le> 0 \<longrightarrow> onProgress progress s = s) \<and>
   loadingProgress (onProgress \<lparr>loaded = 50, total = Some 200\<rparr> s) = 25"
proof (intro conjI impI)
  assume "total progress = Some t \<and> 0 < t \<and>
    finite64 (loaded progress / t) \<and> finite64 (binary64 (loaded progress / t) * 100)"
  then show "loadingProgress (onProgress progress s) =
        Math_round (binary64 (binary64 (loaded progress / t) * 100))"
    by (simp add: onProgress_def)
next
  assume "total progress = None \<or> total progress = Some t \<and> t \<le> 0"
  then show "onProgress progress s = s"
    by (auto simp: onProgress_def)
next
  have "Math_round (binary64 (binary64 (50 / 200) * 100)) = 25"
    by (simp only: binary64_progress Math_round_progress)
  then show "loadingProgress (onProgress \<lparr>loaded = 50, total = Some 200\<rparr> s) = 25"
    by (simp add: onProgress_def)
qed

text \<open>
  At loaded = 29 and total = 200 the double nearest to 0.145, times 100, is
  14.499999999999998, and the reported progress is 14.
\<close>

theorem onProgress_percentage_witness:
  "loadingProgress (onProgress \<lparr>loaded = 29, total = Some 200\<rparr> (state initial_simple)) = 14 \<and>
   onProgress \<lparr>loaded = 1, total = Some 0\<rparr> (state initial_simple) = state initial_simple \<and>
   onProgress \<lparr>loaded = 1, total = None\<rparr> (state initial_simple) = state initial_simple"
proof -
  have r: "Math_round (binary64 (binary64 (29 / 200) * 100)) = 14"
    by (simp only: binary64_progress Math_round_progress)
  have f: "finite64 (29 / 200)" "finite64 (binary64 (29 / 200) * 100)"
    by (simp_all add: binary64_progress finite64_def)
  show ?thesis
    using onProgress_percentage [of "\<lparr>loaded = 29, total = Some 200\<rparr>" 200 "state initial_simple"]
          onProgress_percentage [of "\<lparr>loaded = 1, total = Some 0\<rparr>" 0 "state initial_simple"]
          onProgress_percentage [of "\<lparr>loaded = 1, total = None\<rparr>" 0 "state initial_simple"]
          r f
    by simp
qed

subsection \<open>Layout of the simple variant\<close>

lemma scale_simple_eq: "scale_simple page = min (1000 / naturalWidth page) (3 / 2)"
  by (simp add: scale_simple_def Math_min_def MAX_WIDTH_def getViewport_def)

lemma state_calc_body_simple:
  "state (calc_body_simple w i page) =
     (state w)\<lparr>pages := (pages (state w))[i := laid_out_simple page (pages (state w) ! i)]\<rparr>"
  by (cases "i < length (pages (state w))")
     (simp_all add: calc_body_simple_def update_page_simple_def Let_def getViewport_def
        laid_out_simple_def list_update_beyond)

text \<open>
  The loop invariant: when every \<^verbatim>\<open>getPage\<close> resolves, the loop from \<open>i\<close> on ends without an
  error, lays out every page from \<open>i\<close> on and leaves the pages before \<open>i\<close> alone.
\<close>

lemma calc_loop_simple_pages:
  assumes "pdfDoc (state w) = Some doc"
    and "pageCount (state w) = length (pages (state w))"
    and "\<forall>j<pageCount (state w). getPage doc (j + 1) = Some (pg j)"
  shows "snd (calc_loop_simple w i) = None \<and>
         length (pages (state (fst (calc_loop_simple w i)))) = length (pages (state w)) \<and>
         (\<forall>j<length (pages (state w)).
            pages (state (fst (calc_loop_simple w i))) ! j =
              (if i \<le> j then laid_out_simple (pg j) (pages (state w) ! j) else pages (state w) ! j))"
  using assms
proof (induction w i rule: calc_loop_simple.induct)
  case (1 w i)
  show ?case
  proof (cases "i < pageCount (state w)")
    case False
    with 1(3) show ?thesis
      by (subst (1 2 3) calc_loop_simple.simps) simp
  next
    case True
    let ?w = "calc_body_simple w i (pg i)"
    have gp: "getPage doc (i + 1) = Some (pg i)" using True 1(4) by blast
    have len: "i < length (pages (state w))" using True 1(3) by simp
    have eq: "calc_loop_simple w i = calc_loop_simple ?w (i + 1)"
      by (subst calc_loop_simple.simps) (simp only: True 1(2) gp len if_True option.case)
    have IH: "snd (calc_loop_simple ?w (i + 1)) = None \<and>
         length (pages (state (fst (calc_loop_simple ?w (i + 1))))) = length (pages (state ?w)) \<and>
         (\<forall>j<length (pages (state ?w)).
            pages (state (fst (calc_loop_simple ?w (i + 1)))) ! j =
              (if i + 1 \<le> j then laid_out_simple (pg j) (pages (state ?w) ! j) else pages (state ?w) ! j))"
      using 1(1)[OF True 1(2) gp len] 1(2,3,4)
      by (simp add: state_calc_body_simple)
    show ?thesis
      unfolding eq using IH len
      by (auto simp: state_calc_body_simple nth_list_update not_less_eq_eq dest: le_antisym)
  qed
qed

text \<open>
  C5. Fit-with-cap: for a page of positive natural width the scale is
  \<open>min (MAX_WIDTH / naturalWidth) 1.5\<close>, hence at most 1.5, and 0.5 for a natural width of 2000
  (with \<open>MAX_WIDTH = 1000\<close>); when every page of the open document can be fetched, the layout
  ends without an error and stores the natural size times that scale as the size of each page.
\<close>

theorem fit_with_cap_simple:
  assumes "pdfDoc (state w) = Some doc"
    and "pageCount (state w) = length (pages (state w))"
    and "\<forall>j<pageCount (state w). getPage doc (j + 1) = Some (pg j)"
    and "j < pageCount (state w)"
    and "0 < naturalWidth (pg j)"
  shows "scale_simple (pg j) = min (MAX_WIDTH / naturalWidth (pg j)) (3 / 2) \<and>
         scale_simple (pg j) \<le> 3 / 2 \<and>
         snd (calculatePageDimensions_simple w) = None \<and>
         width (pages (state (fst (calculatePageDimensions_simple w))) ! j) =
           naturalWidth (pg j) * scale_simple (pg j) \<and>
         height (pages (state (fst (calculatePageDimensions_simple w))) ! j) =
           naturalHeight (pg j) * scale_simple (pg j) \<and>
         (MAX_WIDTH = 1000 \<and> naturalWidth (pg j) = 2000 \<longrightarrow> scale_simple (pg j) = 1 / 2)"
proof -
  have "scale_simple (pg j) = min (MAX_WIDTH / naturalWidth (pg j)) (3 / 2)"
    by (simp add: scale_simple_eq MAX_WIDTH_def)
  moreover have "scale_simple (pg j) \<le> 3 / 2"
    by (simp add: scale_simple_eq)
  moreover have "MAX_WIDTH = 1000 \<and> naturalWidth (pg j) = 2000 \<longrightarrow> scale_simple (pg j) = 1 / 2"
    by (simp add: scale_simple_eq)
  moreover have "snd (calculatePageDimensions_simple w) = None"
    and "pages (state (fst (calculatePageDimensions_simple w))) ! j =
           laid_out_simple (pg j) (pages (state w) ! j)"
    using calc_loop_simple_pages[OF assms(1,2,3), of 0] assms(1,2,4)
    by (simp_all add: calculatePageDimensions_simple_def)
  ultimately show ?thesis
    by (simp add: laid_out_simple_def)
qed

theorem fit_with_cap_simple_witness:
  "scale_simple page_2000 = 1 / 2 \<and>
   width (pages (state (fst (calculatePageDimensions_simple
     (loadPDF_opened_simple doc_2000 initial_simple)))) ! 1) = 1000 \<and>
   height (pages (state (fst (calculatePageDimensions_simple
     (loadPDF_opened_simple doc_2000 initial_simple)))) ! 1) = 500"
  using fit_with_cap_simple [of "loadPDF_opened_simple doc_2000 initial_simple" doc_2000 "\<lambda>j. page_2000" 1]
  by (simp add: loadPDF_opened_simple_def initial_simple_def doc_2000_def page_2000_def Let_def MAX_WIDTH_def)

lemma calc_body_simple_containerRef:
  "calc_body_simple (w\<lparr>containerRef := r\<rparr>) i page = (calc_body_simple w i page)\<lparr>containerRef := r\<rparr>"
  by (simp add: calc_body_simple_def update_page_simple_def Let_def)

lemma calc_loop_simple_containerRef:
  "calc_loop_simple (w\<lparr>containerRef := r\<rparr>) i =
     ((fst (calc_loop_simple w i))\<lparr>containerRef := r\<rparr>, snd (calc_loop_simple w i))"
proof (induction w i rule: calc_loop_simple.induct)
  case (1 w i)
  show ?case
    apply (subst calc_loop_simple.simps)
    apply (subst (2) calc_loop_simple.simps)
    apply (subst (3) calc_loop_simple.simps)
    using 1
    by (auto split: option.splits simp: calc_body_simple_containerRef)
qed

text \<open>
  C10. The layout of the simple variant does not depend on the container: two runs of
  \<^verbatim>\<open>calculatePageDimensions\<close> from worlds that differ only in the container element (its content
  width included) end with the same viewer state, so the same width and height for every page,
  and the same outcome; the scale is a function of the page's natural width and the constants
  1000 and 1.5 alone; and a resize notification reaches no code of this variant.
\<close>

theorem layout_simple_ignores_container:
  "state (fst (calculatePageDimensions_simple (w\<lparr>containerRef := r\<rparr>))) =
     state (fst (calculatePageDimensions_simple w)) \<and>
   snd (calculatePageDimensions_simple (w\<lparr>containerRef := r\<rparr>)) =
     snd (calculatePageDimensions_simple w) \<and>
   scale_simple page = min (1000 / naturalWidth page) (3 / 2) \<and>
   step_simple (Resize entry) (w, ts) = (w, ts)"
  by (simp add: calculatePageDimensions_simple_def calc_loop_simple_containerRef scale_simple_eq)

subsection \<open>Layout of the high-quality variant\<close>









subsection \<open>Visibility tracking\<close>

lemma length_disconnect: "length (fold disconnect as h) = length h"
  by (induction as arbitrary: h) (simp_all add: disconnect_def)

lemma nth_disconnect:
  "a < length h \<Longrightarrow>
     fold disconnect as h ! a = (if a \<in> set as then (h ! a)\<lparr>obs_connected := False\<rparr> else h ! a)"
proof (induction as arbitrary: h)
  case Nil
  then show ?case by simp
next
  case (Cons b as)
  have "a < length (disconnect b h)" using Cons.prems by (simp add: disconnect_def)
  from Cons.IH[OF this] Cons.prems show ?case
    by (cases "b < length h") (auto simp: disconnect_def nth_list_update list_update_beyond)
qed

lemma disconnected_all:
  assumes "tracked w" and "a < length (observer_heap w)"
  shows "\<not> obs_connected (fold disconnect (observers w) (observer_heap w) ! a)"
  using assms by (auto simp: tracked_def nth_disconnect)

lemma fold_setup_page:
  "fold setup_page [0..<n] w =
     w\<lparr>observer_heap := observer_heap w @ map (new_observer (containerRef w)) [0..<n],
       observers := observers w @
         map (\<lambda>k. length (observer_heap w) + k) (filter (\<lambda>k. querySelector (containerRef w) (k + 1)) [0..<n])\<rparr>"
proof (induction n)
  case 0
  show ?case by simp
next
  case (Suc n)
  have "fold setup_page [0..<Suc n] w = setup_page n (fold setup_page [0..<n] w)"
    by simp
  also have "\<dots> = setup_page n (w\<lparr>observer_heap := observer_heap w @ map (new_observer (containerRef w)) [0..<n],
       observers := observers w @
         map (\<lambda>k. length (observer_heap w) + k) (filter (\<lambda>k. querySelector (containerRef w) (k + 1)) [0..<n])\<rparr>)"
    by (simp only: Suc)
  also have "\<dots> = w\<lparr>observer_heap := observer_heap w @ map (new_observer (containerRef w)) [0..<Suc n],
       observers := observers w @
         map (\<lambda>k. length (observer_heap w) + k) (filter (\<lambda>k. querySelector (containerRef w) (k + 1)) [0..<Suc n])\<rparr>"
    by (simp add: setup_page_def new_observer_def)
  finally show ?case .
qed

lemma setup_heap:
  "observer_heap (setupIntersectionObservers w) =
     fold disconnect (observers w) (observer_heap w) @
       map (new_observer (containerRef w)) [0..<length (pages (state w))]"
  by (simp add: setupIntersectionObservers_def Let_def fold_setup_page)

lemma setup_observers:
  "observers (setupIntersectionObservers w) =
     map (\<lambda>k. length (observer_heap w) + k)
       (filter (\<lambda>k. querySelector (containerRef w) (k + 1)) [0..<length (pages (state w))])"
  by (simp add: setupIntersectionObservers_def Let_def fold_setup_page length_disconnect)

lemma setup_old_disconnected:
  assumes "tracked w" and "a < length (observer_heap w)"
  shows "\<not> obs_connected (observer_heap (setupIntersectionObservers w) ! a)"
  using disconnected_all[OF assms] assms(2)
  by (simp add: setup_heap nth_append length_disconnect)

lemma setup_new:
  assumes "length (observer_heap w) \<le> a" and "a < length (observer_heap (setupIntersectionObservers w))"
  shows "observer_heap (setupIntersectionObservers w) ! a =
           new_observer (containerRef w) (a - length (observer_heap w))"
  using assms by (simp add: setup_heap nth_append length_disconnect)

lemma setup_connected_new:
  assumes "tracked w" and "a < length (observer_heap (setupIntersectionObservers w))"
    and "obs_connected (observer_heap (setupIntersectionObservers w) ! a)"
  shows "length (observer_heap w) \<le> a \<and> obs_page (observer_heap (setupIntersectionObservers w) ! a) = a - length (observer_heap w)
     \<and> querySelector (containerRef w) (a - length (observer_heap w) + 1)"
proof -
  have le: "length (observer_heap w) \<le> a"
    using setup_old_disconnected[OF assms(1), of a] assms(3) by (cases "a < length (observer_heap w)") auto
  with setup_new[OF le assms(2)] assms(3) show ?thesis
    by (simp add: new_observer_def)
qed

lemma setup_tracked:
  assumes "tracked w"
  shows "tracked (setupIntersectionObservers w)"
  unfolding tracked_def
proof (intro allI impI)
  fix a
  assume a: "a < length (observer_heap (setupIntersectionObservers w))"
    and c: "obs_connected (observer_heap (setupIntersectionObservers w) ! a)"
  from setup_connected_new[OF assms a c]
  have le: "length (observer_heap w) \<le> a"
    and q: "querySelector (containerRef w) (a - length (observer_heap w) + 1)" by simp_all
  have "a - length (observer_heap w) < length (pages (state w))"
    using a le by (simp add: setup_heap length_disconnect)
  then have "a - length (observer_heap w) \<in> set (filter (\<lambda>k. querySelector (containerRef w) (k + 1)) [0..<length (pages (state w))])"
    using q by simp
  then have "length (observer_heap w) + (a - length (observer_heap w)) \<in> set (observers (setupIntersectionObservers w))"
    unfolding setup_observers set_map by (rule imageI)
  then show "a \<in> set (observers (setupIntersectionObservers w))"
    using le by simp
qed

lemma tracked_initial: "tracked initial_simple"
  by (simp add: tracked_def initial_simple_def)

subsection \<open>Evaluating the example viewers\<close>

lemmas world_defs =
  initial_simple_def initial_hq_def loadPDF_opened_simple_def loadPDF_opened_hq_def
  new_page_simple_def new_page_hq_def bind_container_def loadPDF_layout_simple_def
  loadPDF_layout_hq_def loadPDF_catch_def setupIntersectionObservers_def setup_page_def
  querySelector_def disconnect_def run_simple_def run_hq_def
  update_page_simple_def update_page_hq_def page_simple_def page_hq_def
  calculatePageDimensions_simple_def calc_loop_simple.simps calc_body_simple_def scale_simple_def
  calculatePageDimensions_hq_def calc_loop_hq.simps calc_body_hq_def calc_store_hq_def
  calculatePageDimensions_call_hq_def calc_next_hq_def handleResize_call_hq_def handleResize_hq_def
  targetWidth_hq_def scale_hq_def scaledWidth_hq_def scaledHeight_hq_def
  renderPage_guard_simple_def renderPage_draw_simple_def renderPage_done_simple_def
  renderPage_catch_simple_def renderPage_try_simple_def renderPage_simple_def renderPage_call_simple_def
  renderPage_guard_hq_def renderPage_draw_hq_def renderPage_done_hq_def
  renderPage_catch_hq_def renderPage_try_hq_def renderPage_hq_def renderPage_call_hq_def
  getViewport_def Math_min_def MAX_WIDTH_def QUALITY_SCALE_def binary64_target binary64_exact
  doc_600_def doc_2000_def doc_failing_def container_3_def onMount_hq_def
  Let_def upt_rec[of _ "numeral _"]

lemma page_600_sel:
  "naturalWidth page_600 = 600" "naturalHeight page_600 = 800" "render_fulfils page_600"
  by (simp_all add: page_600_def)

lemma page_612_sel:
  "naturalWidth page_612 = 612" "naturalHeight page_612 = 792"
  by (simp_all add: page_612_def)

lemma page_unrenderable_sel:
  "naturalWidth page_unrenderable = 600" "naturalHeight page_unrenderable = 800"
  "\<not> render_fulfils page_unrenderable"
  by (simp_all add: page_unrenderable_def)

lemma fresh_canvas_sel: "context2d fresh_canvas"
  by (simp add: fresh_canvas_def)

lemma ready_simple_eval:
  "ready_simple =
     \<lparr>state =
        \<lparr>pdfDoc = Some doc_600, pageCount = 3, loading = False, loadingProgress = 0,
         pages =
           [\<lparr>pageNum = 1, canvas = Some fresh_canvas, rendered = False, height = 1200, width = 900\<rparr>,
            \<lparr>pageNum = 2, canvas = Some fresh_canvas, rendered = False, height = 1200, width = 900\<rparr>,
            \<lparr>pageNum = 3, canvas = None, rendered = False, height = 1200, width = 900\<rparr>]\<rparr>,
      containerRef = Some container_3,
      observers = [0, 1, 2],
      observer_heap =
        [\<lparr>obs_page = 0, obs_connected = True\<rparr>,
         \<lparr>obs_page = 1, obs_connected = True\<rparr>,
         \<lparr>obs_page = 2, obs_connected = True\<rparr>],
      console = [], render_calls = []\<rparr>"
  by (simp add: ready_simple_def world_defs page_600_sel)

lemma ready_hq_eval:
  "ready_hq =
     \<lparr>state =
        \<lparr>pdfDoc = Some doc_600, pageCount = 3, loading = False, loadingProgress = 0,
         pages =
           [\<lparr>pageNum = 1, canvas = Some fresh_canvas, rendered = False, height = 1200, width = 900,
             scale = 3 / 2, actualHeight = 800, actualWidth = 600\<rparr>,
            \<lparr>pageNum = 2, canvas = Some fresh_canvas, rendered = False, height = 1200, width = 900,
             scale = 3 / 2, actualHeight = 800, actualWidth = 600\<rparr>,
            \<lparr>pageNum = 3, canvas = None, rendered = False, height = 1200, width = 900,
             scale = 3 / 2, actualHeight = 800, actualWidth = 600\<rparr>],
         containerWidth = 1000, containerHeight = 800\<rparr>,
      containerRef = Some container_3,
      observers = [0, 1, 2],
      observer_heap =
        [\<lparr>obs_page = 0, obs_connected = True\<rparr>,
         \<lparr>obs_page = 1, obs_connected = True\<rparr>,
         \<lparr>obs_page = 2, obs_connected = True\<rparr>],
      console = [], render_calls = [], resizeObserver = Some True\<rparr>"
  by (simp add: ready_hq_def world_defs page_600_sel)

lemma failing_simple_eval:
  "failing_simple =
     \<lparr>state =
        \<lparr>pdfDoc = Some doc_failing, pageCount = 2, loading = False, loadingProgress = 0,
         pages =
           [\<lparr>pageNum = 1, canvas = Some fresh_canvas, rendered = False, height = 0, width = 0\<rparr>,
            \<lparr>pageNum = 2, canvas = Some fresh_canvas, rendered = False, height = 0, width = 0\<rparr>]\<rparr>,
      containerRef = None, observers = [], observer_heap = [], console = [], render_calls = []\<rparr>"
  by (simp add: failing_simple_def world_defs)

lemma failing_hq_eval:
  "failing_hq =
     \<lparr>state =
        \<lparr>pdfDoc = Some doc_failing, pageCount = 2, loading = False, loadingProgress = 0,
         pages =
           [\<lparr>pageNum = 1, canvas = Some fresh_canvas, rendered = False, height = 0, width = 0,
             scale = 1, actualHeight = 0, actualWidth = 0\<rparr>,
            \<lparr>pageNum = 2, canvas = Some fresh_canvas, rendered = False, height = 0, width = 0,
             scale = 1, actualHeight = 0, actualWidth = 0\<rparr>],
         containerWidth = 0, containerHeight = 0\<rparr>,
      containerRef = None, observers = [], observer_heap = [], console = [], render_calls = [], resizeObserver = None\<rparr>"
  by (simp add: failing_hq_def world_defs)

lemma mounted_hq_eval:
  "mounted_hq doc_600 container_3 =
     (\<lparr>state =
        \<lparr>pdfDoc = Some doc_600, pageCount = 3, loading = False, loadingProgress = 0,
         pages =
           [\<lparr>pageNum = 1, canvas = None, rendered = False, height = 0, width = 0,
             scale = 1, actualHeight = 0, actualWidth = 0\<rparr>,
            \<lparr>pageNum = 2, canvas = None, rendered = False, height = 0, width = 0,
             scale = 1, actualHeight = 0, actualWidth = 0\<rparr>,
            \<lparr>pageNum = 3, canvas = None, rendered = False, height = 0, width = 0,
             scale = 1, actualHeight = 0, actualWidth = 0\<rparr>],
         containerWidth = 0, containerHeight = 0\<rparr>,
      containerRef = Some container_3,
      observers = [0, 1, 2],
      observer_heap =
        [\<lparr>obs_page = 0, obs_connected = True\<rparr>,
         \<lparr>obs_page = 1, obs_connected = True\<rparr>,
         \<lparr>obs_page = 2, obs_connected = True\<rparr>],
      console = [], render_calls = [], resizeObserver = Some False\<rparr>, [])"
  by (simp add: mounted_hq_def world_defs initial_hq_def)

lemmas step_defs =
  run_simple_def run_hq_def update_page_simple_def update_page_hq_def page_simple_def page_hq_def
  calc_body_hq_def calc_store_hq_def
  calculatePageDimensions_call_hq_def calc_next_hq_def handleResize_call_hq_def
  targetWidth_hq_def scale_hq_def scaledWidth_hq_def scaledHeight_hq_def
  renderPage_guard_simple_def renderPage_draw_simple_def renderPage_done_simple_def
  renderPage_catch_simple_def renderPage_try_simple_def renderPage_simple_def renderPage_call_simple_def
  renderPage_guard_hq_def renderPage_draw_hq_def renderPage_done_hq_def
  renderPage_catch_hq_def renderPage_try_hq_def renderPage_hq_def renderPage_call_hq_def
  getViewport_def Math_min_def MAX_WIDTH_def QUALITY_SCALE_def binary64_target binary64_exact
  Let_def in_flight_def

lemma doc_600_getPage: "getPage doc_600 (Suc 0) = Some page_600" "getPage doc_600 1 = Some page_600"
  by (simp_all add: doc_600_def)

subsection \<open>Renders in flight\<close>

text \<open>
  C3. The code does not keep rasterizations of one page apart. In both variants, when the
  observer of the first page calls back twice before the first call of \<^verbatim>\<open>renderPage\<close> has
  finished (the flag \<open>rendered\<close> is still false, so both calls pass the guard) and both
  \<^verbatim>\<open>getPage\<close> promises resolve, two rasterizations of that page are in flight at once, and
  \<^verbatim>\<open>page.render\<close> has been invoked twice for page 1. The same happens in the high-quality
  variant when a resize re-renders a rendered page and the observer calls back before that
  render has finished. The last two lines are the high-quality viewer as mounted, with no
  resize.
\<close>

theorem duplicate_rasterize:
  "in_flight 0 (snd (run_simple [Intersect 0 [True], Intersect 0 [True], Settle 0, Settle 0]
                       (ready_simple, []))) = 2 \<and>
   render_calls (fst (run_simple [Intersect 0 [True], Intersect 0 [True], Settle 0, Settle 0]
                       (ready_simple, []))) = [1, 1] \<and>
   in_flight 0 (snd (run_hq [Intersect 0 [True], Intersect 0 [True], Settle 0, Settle 0]
                       (ready_hq, []))) = 2 \<and>
   render_calls (fst (run_hq [Intersect 0 [True], Intersect 0 [True], Settle 0, Settle 0]
                       (ready_hq, []))) = [1, 1] \<and>
   in_flight 0 (snd (run_hq resize_visibility_run (ready_hq, []))) = 2 \<and>
   render_calls (fst (run_hq resize_visibility_run (ready_hq, []))) = [1, 1, 1] \<and>
   in_flight 0 (snd (run_hq
       [Bind 0 fresh_canvas, Intersect 0 [True], Intersect 0 [True], Settle 0, Settle 0]
       (mounted_hq doc_600 container_3))) = 2 \<and>
   render_calls (fst (run_hq
       [Bind 0 fresh_canvas, Intersect 0 [True], Intersect 0 [True], Settle 0, Settle 0]
       (mounted_hq doc_600 container_3))) = [1, 1]"
proof -
  have "in_flight 0 (snd (run_hq
       [Bind 0 fresh_canvas, Intersect 0 [True], Intersect 0 [True], Settle 0, Settle 0]
       (mounted_hq doc_600 container_3))) = 2 \<and>
     render_calls (fst (run_hq
       [Bind 0 fresh_canvas, Intersect 0 [True], Intersect 0 [True], Settle 0, Settle 0]
       (mounted_hq doc_600 container_3))) = [1, 1]"
    by (simp add: mounted_hq_eval step_defs page_600_sel fresh_canvas_sel doc_600_getPage)
  then show ?thesis
    by (simp add: ready_simple_eval ready_hq_eval step_defs page_600_sel fresh_canvas_sel
        doc_600_getPage doc_600_def resize_visibility_run_def)
qed

subsection \<open>The guards of the layout and of the render\<close>

text \<open>
  C8. With a container width of zero (also the initial value, before the container has been
  measured) \<^verbatim>\<open>calculatePageDimensions\<close> returns at its guard: the world is unchanged, so every
  page keeps its width, height and scale; no call of \<^verbatim>\<open>renderPage\<close> is started, nothing is
  awaited and no quotient is computed. A resize notification of width zero likewise leaves every
  page state as it was.
\<close>

theorem layout_noop_without_width:
  assumes "containerWidth (state w) = 0"
  shows "calculatePageDimensions_hq w = (w, [], None) \<and>
         calculatePageDimensions_call_hq w = (w, []) \<and>
         pages (state (fst (handleResize_hq (Some \<lparr>rect_width = 0, rect_height = h\<rparr>) v))) =
           pages (state v) \<and>
         snd (handleResize_hq (Some \<lparr>rect_width = 0, rect_height = h\<rparr>) v) = ([], None) \<and>
         snd (handleResize_call_hq (Some \<lparr>rect_width = 0, rect_height = h\<rparr>) v) = []"
  using assms
  by (simp add: calculatePageDimensions_hq_def calculatePageDimensions_call_hq_def
      handleResize_hq_def handleResize_call_hq_def Let_def)

theorem layout_noop_without_width_witness:
  "calculatePageDimensions_hq failing_hq = (failing_hq, [], None) \<and>
   map scale (pages (state (fst (calculatePageDimensions_hq failing_hq)))) = [1, 1] \<and>
   map width (pages (state (fst (handleResize_hq (Some \<lparr>rect_width = 0, rect_height = 800\<rparr>) ready_hq)))) =
     [900, 900, 900]"
  using layout_noop_without_width [of failing_hq 800 ready_hq]
  by (simp add: failing_hq_eval ready_hq_eval)

text \<open>
  C2. In both variants \<^verbatim>\<open>renderPage\<close> returns at its guard, without an error and leaving the
  world as it was, when no document is open, when the page is already rendered, or when the page
  has no canvas; nothing is awaited. So a second call right after a call that left the page
  rendered invokes \<^verbatim>\<open>page.render\<close> no further time.
\<close>

theorem renderPage_guard_returns:
  "(pdfDoc (state w) = None \<or> rendered (page_simple w i) \<or> canvas (page_simple w i) = None \<longrightarrow>
      renderPage_simple w i = (w, None) \<and> renderPage_call_simple w i = (w, [])) \<and>
   (pdfDoc (state v) = None \<or> rendered (page_hq v i) \<or> canvas (page_hq v i) = None \<longrightarrow>
      renderPage_hq v i = (v, None) \<and> renderPage_call_hq v i = (v, [])) \<and>
   (rendered (page_simple (fst (renderPage_simple w i)) i) \<longrightarrow>
      render_calls (fst (renderPage_simple (fst (renderPage_simple w i)) i)) =
        render_calls (fst (renderPage_simple w i))) \<and>
   (rendered (page_hq (fst (renderPage_hq v i)) i) \<longrightarrow>
      render_calls (fst (renderPage_hq (fst (renderPage_hq v i)) i)) =
        render_calls (fst (renderPage_hq v i)))"
  by (simp add: renderPage_simple_def renderPage_call_simple_def renderPage_guard_simple_def
      renderPage_hq_def renderPage_call_hq_def renderPage_guard_hq_def)

lemma rendered_once_simple:
  "rendered (page_simple (fst (renderPage_simple ready_simple 0)) 0) \<and>
   render_calls (fst (renderPage_simple ready_simple 0)) = [1]"
  by (simp add: ready_simple_eval step_defs page_600_sel fresh_canvas_sel doc_600_getPage)

lemma rendered_once_hq:
  "rendered (page_hq (fst (renderPage_hq ready_hq 0)) 0) \<and>
   render_calls (fst (renderPage_hq ready_hq 0)) = [1]"
  by (simp add: ready_hq_eval step_defs page_600_sel fresh_canvas_sel doc_600_getPage)

theorem renderPage_guard_returns_witness:
  "renderPage_simple initial_simple 0 = (initial_simple, None) \<and>
   renderPage_hq ready_hq 2 = (ready_hq, None) \<and>
   render_calls (fst (renderPage_simple (fst (renderPage_simple ready_simple 0)) 0)) = [1] \<and>
   render_calls (fst (renderPage_hq (fst (renderPage_hq ready_hq 0)) 0)) = [1]"
proof -
  have "pdfDoc (state initial_simple) = None"
    by (simp add: initial_simple_def)
  moreover have "canvas (page_hq ready_hq 2) = None"
    by (simp add: ready_hq_eval page_hq_def)
  ultimately show ?thesis
    using renderPage_guard_returns [of initial_simple 0 ready_hq]
      renderPage_guard_returns [of ready_simple 2 ready_hq]
      renderPage_guard_returns [of ready_simple 0 ready_hq]
      rendered_once_simple rendered_once_hq
    by simp
qed

subsection \<open>Failures of a render\<close>

lemma draw_simple_frame:
  "console (fst (renderPage_draw_simple w i page)) = console w \<and>
   (render_calls (fst (renderPage_draw_simple w i page)) = render_calls w \<or>
    render_calls (fst (renderPage_draw_simple w i page)) = render_calls w @ [pageNum (page_simple w i)]) \<and>
   (\<forall>j. j \<noteq> i \<longrightarrow> page_simple (fst (renderPage_draw_simple w i page)) j = page_simple w j) \<and>
   rendered (page_simple (fst (renderPage_draw_simple w i page)) i) = rendered (page_simple w i) \<and>
   pageNum (page_simple (fst (renderPage_draw_simple w i page)) i) = pageNum (page_simple w i)"
  by (cases "i < length (pages (state w))")
     (simp_all add: renderPage_draw_simple_def update_page_simple_def page_simple_def Let_def
        list_update_beyond split: option.splits)

lemma draw_hq_frame:
  "console (fst (renderPage_draw_hq w i page)) = console w \<and>
   (render_calls (fst (renderPage_draw_hq w i page)) = render_calls w \<or>
    render_calls (fst (renderPage_draw_hq w i page)) = render_calls w @ [pageNum (page_hq w i)]) \<and>
   (\<forall>j. j \<noteq> i \<longrightarrow> page_hq (fst (renderPage_draw_hq w i page)) j = page_hq w j) \<and>
   rendered (page_hq (fst (renderPage_draw_hq w i page)) i) = rendered (page_hq w i) \<and>
   pageNum (page_hq (fst (renderPage_draw_hq w i page)) i) = pageNum (page_hq w i)"
  by (cases "i < length (pages (state w))")
     (simp_all add: renderPage_draw_hq_def update_page_hq_def page_hq_def Let_def
        list_update_beyond split: option.splits)

lemma catch_simple_frame:
  "page_simple (renderPage_catch_simple w i e) j = page_simple w j \<and>
   render_calls (renderPage_catch_simple w i e) = render_calls w \<and>
   console (renderPage_catch_simple w i e) = console w @ [ErrorRenderingPage (pageNum (page_simple w i)) e]"
  by (simp add: renderPage_catch_simple_def page_simple_def)

lemma catch_hq_frame:
  "page_hq (renderPage_catch_hq w i e) j = page_hq w j \<and>
   render_calls (renderPage_catch_hq w i e) = render_calls w \<and>
   console (renderPage_catch_hq w i e) = console w @ [ErrorRenderingPage (pageNum (page_hq w i)) e]"
  by (simp add: renderPage_catch_hq_def page_hq_def)

lemma renderPage_simple_fails:
  assumes "pdfDoc (state w) = Some doc" and "\<not> rendered (page_simple w i)"
    and "canvas (page_simple w i) = Some c"
    and "getPage doc (pageNum (page_simple w i)) = None \<or>
         (\<exists>page. getPage doc (pageNum (page_simple w i)) = Some page \<and> \<not> render_fulfils page)"
  shows "(\<exists>e. renderPage_simple w i = (renderPage_catch_simple w i e, None)) \<or>
         (\<exists>page e. renderPage_simple w i =
            (renderPage_catch_simple (fst (renderPage_draw_simple w i page)) i e, None))"
  using assms
  by (auto simp: renderPage_simple_def renderPage_guard_simple_def renderPage_try_simple_def
      split_beta split: option.splits)

lemma renderPage_hq_fails:
  assumes "pdfDoc (state w) = Some doc" and "\<not> rendered (page_hq w i)"
    and "canvas (page_hq w i) = Some c"
    and "getPage doc (pageNum (page_hq w i)) = None \<or>
         (\<exists>page. getPage doc (pageNum (page_hq w i)) = Some page \<and> \<not> render_fulfils page)"
  shows "(\<exists>e. renderPage_hq w i = (renderPage_catch_hq w i e, None)) \<or>
         (\<exists>page e. renderPage_hq w i =
            (renderPage_catch_hq (fst (renderPage_draw_hq w i page)) i e, None))"
  using assms
  by (auto simp: renderPage_hq_def renderPage_guard_hq_def renderPage_try_hq_def
      split_beta split: option.splits)

lemma renderPage_simple_failure:
  assumes "pdfDoc (state w) = Some doc" and "\<not> rendered (page_simple w i)"
    and "canvas (page_simple w i) = Some c"
    and "getPage doc (pageNum (page_simple w i)) = None \<or>
         (\<exists>page. getPage doc (pageNum (page_simple w i)) = Some page \<and> \<not> render_fulfils page)"
  shows "snd (renderPage_simple w i) = None \<and>
         \<not> rendered (page_simple (fst (renderPage_simple w i)) i) \<and>
         (\<exists>e. console (fst (renderPage_simple w i)) =
                 console w @ [ErrorRenderingPage (pageNum (page_simple w i)) e]) \<and>
         (\<forall>j. j \<noteq> i \<longrightarrow> page_simple (fst (renderPage_simple w i)) j = page_simple w j) \<and>
         (render_calls (fst (renderPage_simple w i)) = render_calls w \<or>
          render_calls (fst (renderPage_simple w i)) = render_calls w @ [pageNum (page_simple w i)])"
  using renderPage_simple_fails[OF assms]
proof (elim disjE exE)
  fix e
  assume "renderPage_simple w i = (renderPage_catch_simple w i e, None)"
  then show ?thesis
    using assms(2) by (simp add: catch_simple_frame)
next
  fix page e
  assume "renderPage_simple w i =
            (renderPage_catch_simple (fst (renderPage_draw_simple w i page)) i e, None)"
  then show ?thesis
    using assms(2) draw_simple_frame[of w i page] by (simp add: catch_simple_frame)
qed

lemma renderPage_hq_failure:
  assumes "pdfDoc (state w) = Some doc" and "\<not> rendered (page_hq w i)"
    and "canvas (page_hq w i) = Some c"
    and "getPage doc (pageNum (page_hq w i)) = None \<or>
         (\<exists>page. getPage doc (pageNum (page_hq w i)) = Some page \<and> \<not> render_fulfils page)"
  shows "snd (renderPage_hq w i) = None \<and>
         \<not> rendered (page_hq (fst (renderPage_hq w i)) i) \<and>
         (\<exists>e. console (fst (renderPage_hq w i)) =
                 console w @ [ErrorRenderingPage (pageNum (page_hq w i)) e]) \<and>
         (\<forall>j. j \<noteq> i \<longrightarrow> page_hq (fst (renderPage_hq w i)) j = page_hq w j) \<and>
         (render_calls (fst (renderPage_hq w i)) = render_calls w \<or>
          render_calls (fst (renderPage_hq w i)) = render_calls w @ [pageNum (page_hq w i)])"
  using renderPage_hq_fails[OF assms]
proof (elim disjE exE)
  fix e
  assume "renderPage_hq w i = (renderPage_catch_hq w i e, None)"
  then show ?thesis
    using assms(2) by (simp add: catch_hq_frame)
next
  fix page e
  assume "renderPage_hq w i =
            (renderPage_catch_hq (fst (renderPage_draw_hq w i page)) i e, None)"
  then show ?thesis
    using assms(2) draw_hq_frame[of w i page] by (simp add: catch_hq_frame)
qed

text \<open>
  C7. In both variants, when \<^verbatim>\<open>renderPage\<close> passes its guard and either \<^verbatim>\<open>getPage\<close> rejects or
  the page's render promise rejects, the promise of \<^verbatim>\<open>renderPage\<close> still fulfils (nothing is
  thrown to the caller); the page is left not rendered; exactly one entry is added to the
  console, an error tagged with the page number; every other page state is untouched; and
  \<^verbatim>\<open>page.render\<close> has been invoked at most once, so nothing is retried.
\<close>

theorem renderPage_failure_contained:
  "(pdfDoc (state w) = Some doc \<and> \<not> rendered (page_simple w i) \<and> canvas (page_simple w i) = Some c \<and>
    (getPage doc (pageNum (page_simple w i)) = None \<or>
      (\<exists>page. getPage doc (pageNum (page_simple w i)) = Some page \<and> \<not> render_fulfils page)) \<longrightarrow>
      snd (renderPage_simple w i) = None \<and>
      \<not> rendered (page_simple (fst (renderPage_simple w i)) i) \<and>
      (\<exists>e. console (fst (renderPage_simple w i)) =
              console w @ [ErrorRenderingPage (pageNum (page_simple w i)) e]) \<and>
      (\<forall>j. j \<noteq> i \<longrightarrow> page_simple (fst (renderPage_simple w i)) j = page_simple w j) \<and>
      (render_calls (fst (renderPage_simple w i)) = render_calls w \<or>
       render_calls (fst (renderPage_simple w i)) = render_calls w @ [pageNum (page_simple w i)])) \<and>
   (pdfDoc (state v) = Some doc' \<and> \<not> rendered (page_hq v k) \<and> canvas (page_hq v k) = Some c' \<and>
    (getPage doc' (pageNum (page_hq v k)) = None \<or>
      (\<exists>page. getPage doc' (pageNum (page_hq v k)) = Some page \<and> \<not> render_fulfils page)) \<longrightarrow>
      snd (renderPage_hq v k) = None \<and>
      \<not> rendered (page_hq (fst (renderPage_hq v k)) k) \<and>
      (\<exists>e. console (fst (renderPage_hq v k)) =
              console v @ [ErrorRenderingPage (pageNum (page_hq v k)) e]) \<and>
      (\<forall>j. j \<noteq> k \<longrightarrow> page_hq (fst (renderPage_hq v k)) j = page_hq v j) \<and>
      (render_calls (fst (renderPage_hq v k)) = render_calls v \<or>
       render_calls (fst (renderPage_hq v k)) = render_calls v @ [pageNum (page_hq v k)]))"
  using renderPage_simple_failure[of w doc i c] renderPage_hq_failure[of v doc' k c']
  by blast

lemma failing_simple_runs:
  "console (fst (renderPage_simple failing_simple 0)) = [ErrorRenderingPage 1 RenderRejected]"
  "console (fst (renderPage_simple failing_simple (Suc 0))) = [ErrorRenderingPage 2 GetPageRejected]"
  "render_calls (fst (renderPage_simple failing_simple 0)) = [1]"
  "render_calls (fst (renderPage_simple failing_simple (Suc 0))) = []"
  by (simp_all add: failing_simple_eval step_defs doc_failing_def page_unrenderable_sel fresh_canvas_sel)

lemma failing_hq_runs:
  "console (fst (renderPage_hq failing_hq 0)) = [ErrorRenderingPage 1 RenderRejected]"
  "console (fst (renderPage_hq failing_hq (Suc 0))) = [ErrorRenderingPage 2 GetPageRejected]"
  "render_calls (fst (renderPage_hq failing_hq 0)) = [1]"
  "render_calls (fst (renderPage_hq failing_hq (Suc 0))) = []"
  by (simp_all add: failing_hq_eval step_defs doc_failing_def page_unrenderable_sel fresh_canvas_sel)

theorem renderPage_failure_contained_witness:
  "snd (renderPage_simple failing_simple 0) = None \<and>
   \<not> rendered (page_simple (fst (renderPage_simple failing_simple 0)) 0) \<and>
   page_simple (fst (renderPage_simple failing_simple 0)) 1 = page_simple failing_simple 1 \<and>
   console (fst (renderPage_simple failing_simple 0)) = [ErrorRenderingPage 1 RenderRejected] \<and>
   snd (renderPage_hq failing_hq 1) = None \<and>
   \<not> rendered (page_hq (fst (renderPage_hq failing_hq 1)) 1) \<and>
   page_hq (fst (renderPage_hq failing_hq 1)) 0 = page_hq failing_hq 0 \<and>
   console (fst (renderPage_hq failing_hq 1)) = [ErrorRenderingPage 2 GetPageRejected]"
proof -
  have s: "pdfDoc (state failing_simple) = Some doc_failing"
    "\<not> rendered (page_simple failing_simple 0)"
    "canvas (page_simple failing_simple 0) = Some fresh_canvas"
    "getPage doc_failing (pageNum (page_simple failing_simple 0)) = Some page_unrenderable"
    "\<not> render_fulfils page_unrenderable"
    by (simp_all add: failing_simple_eval page_simple_def doc_failing_def page_unrenderable_sel)
  have h: "pdfDoc (state failing_hq) = Some doc_failing"
    "\<not> rendered (page_hq failing_hq 1)"
    "canvas (page_hq failing_hq 1) = Some fresh_canvas"
    "getPage doc_failing (pageNum (page_hq failing_hq 1)) = None"
    by (simp_all add: failing_hq_eval page_hq_def doc_failing_def)
  note inst = renderPage_failure_contained
        [of failing_simple doc_failing 0 fresh_canvas failing_hq doc_failing 1 fresh_canvas]
  have A: "snd (renderPage_simple failing_simple 0) = None \<and>
      \<not> rendered (page_simple (fst (renderPage_simple failing_simple 0)) 0) \<and>
      (\<forall>j. j \<noteq> 0 \<longrightarrow> page_simple (fst (renderPage_simple failing_simple 0)) j = page_simple failing_simple j)"
    using inst s by blast
  have B: "snd (renderPage_hq failing_hq 1) = None \<and>
      \<not> rendered (page_hq (fst (renderPage_hq failing_hq 1)) 1) \<and>
      (\<forall>j. j \<noteq> 1 \<longrightarrow> page_hq (fst (renderPage_hq failing_hq 1)) j = page_hq failing_hq j)"
    using inst h by blast
  show ?thesis
    using A B by (simp add: failing_simple_runs failing_hq_runs)
qed

subsection \<open>Observer generations\<close>

lemma destroy_disconnected:
  assumes "tracked w" and "a < length (observer_heap (onDestroy_simple w))"
  shows "\<not> obs_connected (observer_heap (onDestroy_simple w) ! a)"
  using disconnected_all[OF assms(1), of a] assms(2)
  by (simp add: onDestroy_simple_def length_disconnect)

lemma setup_observed_pages:
  "map (\<lambda>a. obs_page (observer_heap (setupIntersectionObservers w) ! a))
       (observers (setupIntersectionObservers w)) =
     filter (\<lambda>k. querySelector (containerRef w) (k + 1)) [0..<length (pages (state w))]"
proof -
  have "map (\<lambda>a. obs_page (observer_heap (setupIntersectionObservers w) ! a))
          (observers (setupIntersectionObservers w)) =
        map (\<lambda>k. obs_page (observer_heap (setupIntersectionObservers w) ! (length (observer_heap w) + k)))
          (filter (\<lambda>k. querySelector (containerRef w) (k + 1)) [0..<length (pages (state w))])"
    by (simp add: setup_observers comp_def)
  also have "\<dots> = map (\<lambda>k. k)
          (filter (\<lambda>k. querySelector (containerRef w) (k + 1)) [0..<length (pages (state w))])"
    by (rule map_cong) (auto simp: setup_heap nth_append length_disconnect new_observer_def)
  finally show ?thesis by simp
qed

text \<open>
  C9. Provided every observing observer is held in \<open>observers\<close> (which holds initially and is
  kept by the setup): after \<^verbatim>\<open>setupIntersectionObservers\<close> every observer that existed before
  is disconnected; no two observing observers watch the same page; the pages watched are
  exactly those whose placeholder the container holds, each once, whatever was observed before;
  and every observing observer is again held in \<open>observers\<close>. After \<^verbatim>\<open>onDestroy\<close> no observer
  is observing (so the proviso still holds), and a visibility callback for any observer changes
  nothing.
\<close>

theorem observers_one_generation:
  assumes "tracked w"
  shows "(\<forall>a<length (observer_heap w).
            \<not> obs_connected (observer_heap (setupIntersectionObservers w) ! a)) \<and>
         (\<forall>a b. a < length (observer_heap (setupIntersectionObservers w)) \<and>
                b < length (observer_heap (setupIntersectionObservers w)) \<and>
                obs_connected (observer_heap (setupIntersectionObservers w) ! a) \<and>
                obs_connected (observer_heap (setupIntersectionObservers w) ! b) \<and>
                obs_page (observer_heap (setupIntersectionObservers w) ! a) =
                  obs_page (observer_heap (setupIntersectionObservers w) ! b) \<longrightarrow> a = b) \<and>
         map (\<lambda>a. obs_page (observer_heap (setupIntersectionObservers w) ! a))
             (observers (setupIntersectionObservers w)) =
           filter (\<lambda>k. querySelector (containerRef w) (k + 1)) [0..<length (pages (state w))] \<and>
         tracked (setupIntersectionObservers w) \<and>
         (\<forall>a<length (observer_heap (onDestroy_simple w)).
            \<not> obs_connected (observer_heap (onDestroy_simple w) ! a)) \<and>
         tracked (onDestroy_simple w) \<and>
         (\<forall>a entries ts. step_simple (Intersect a entries) (onDestroy_simple w, ts) =
            (onDestroy_simple w, ts))"
proof (intro conjI allI impI)
  fix a assume "a < length (observer_heap w)"
  then show "\<not> obs_connected (observer_heap (setupIntersectionObservers w) ! a)"
    by (rule setup_old_disconnected[OF assms])
next
  fix a b
  assume h: "a < length (observer_heap (setupIntersectionObservers w)) \<and>
                b < length (observer_heap (setupIntersectionObservers w)) \<and>
                obs_connected (observer_heap (setupIntersectionObservers w) ! a) \<and>
                obs_connected (observer_heap (setupIntersectionObservers w) ! b) \<and>
                obs_page (observer_heap (setupIntersectionObservers w) ! a) =
                  obs_page (observer_heap (setupIntersectionObservers w) ! b)"
  from h setup_connected_new[OF assms, of a] setup_connected_new[OF assms, of b]
  have "length (observer_heap w) \<le> a" "length (observer_heap w) \<le> b"
    "a - length (observer_heap w) = b - length (observer_heap w)"
    by simp_all
  then show "a = b" by arith
next
  show "map (\<lambda>a. obs_page (observer_heap (setupIntersectionObservers w) ! a))
             (observers (setupIntersectionObservers w)) =
           filter (\<lambda>k. querySelector (containerRef w) (k + 1)) [0..<length (pages (state w))]"
    by (rule setup_observed_pages)
next
  show "tracked (setupIntersectionObservers w)"
    by (rule setup_tracked[OF assms])
next
  fix a assume "a < length (observer_heap (onDestroy_simple w))"
  then show "\<not> obs_connected (observer_heap (onDestroy_simple w) ! a)"
    by (rule destroy_disconnected[OF assms])
next
  show "tracked (onDestroy_simple w)"
    using destroy_disconnected[OF assms] by (simp add: tracked_def)
next
  fix a entries ts
  show "step_simple (Intersect a entries) (onDestroy_simple w, ts) = (onDestroy_simple w, ts)"
    using destroy_disconnected[OF assms, of a] by auto
qed

lemma tracked_ready_simple: "tracked ready_simple"
  by (auto simp: tracked_def ready_simple_eval less_Suc_eq numeral_3_eq_3)

lemma setup_ready_simple:
  "observers (setupIntersectionObservers ready_simple) = [3, 4, 5]"
  "map obs_connected (observer_heap (setupIntersectionObservers ready_simple)) =
     [False, False, False, True, True, True]"
  "map obs_connected (observer_heap (onDestroy_simple ready_simple)) = [False, False, False]"
  by (simp_all add: setup_observers setup_heap onDestroy_simple_def new_observer_def
        ready_simple_eval querySelector_def container_3_def disconnect_def upt_rec[of _ "numeral _"])

theorem observers_one_generation_witness:
  "tracked ready_simple \<and>
   tracked (setupIntersectionObservers ready_simple) \<and>
   observers (setupIntersectionObservers ready_simple) = [3, 4, 5] \<and>
   map obs_connected (observer_heap (setupIntersectionObservers ready_simple)) =
     [False, False, False, True, True, True] \<and>
   map obs_connected (observer_heap (onDestroy_simple ready_simple)) = [False, False, False] \<and>
   step_simple (Intersect 0 [True]) (onDestroy_simple ready_simple, []) =
     (onDestroy_simple ready_simple, [])"
  using observers_one_generation [OF tracked_ready_simple] tracked_ready_simple setup_ready_simple
  by blast

subsection \<open>Runs of the mounted high-quality viewer\<close>

lemma sized_for_rendered [simp]: "sized_for doc (p\<lparr>rendered := b\<rparr>) = sized_for doc p"
  by (simp add: sized_for_def cong: option.case_cong)



lemma quiet_frame [simp]:
  "quiet doc (w\<lparr>console := x\<rparr>, ts) = quiet doc (w, ts)"
  "quiet doc (w\<lparr>render_calls := y\<rparr>, ts) = quiet doc (w, ts)"
  by (simp_all add: quiet_def)





lemma pages_catch: "pages (state (renderPage_catch_hq w i e)) = pages (state w)"
  by (simp add: renderPage_catch_hq_def)











lemma laid_out_hq_values:
  assumes "binary64 (cw * WIDTH_RATIO) = t" and "binary64 (t / naturalWidth page) = s"
    and "binary64 (naturalWidth page * s) = wd" and "binary64 (naturalHeight page * s) = ht"
  shows "laid_out_hq cw page p =
     (if rendered p \<and> canvas p \<noteq> None
      then p\<lparr>actualWidth := naturalWidth page, actualHeight := naturalHeight page,
             width := wd, height := ht, scale := s, rendered := False\<rparr>
      else p\<lparr>actualWidth := naturalWidth page, actualHeight := naturalHeight page,
             width := wd, height := ht, scale := s\<rparr>)"
  using assms by (simp add: laid_out_hq_def Let_def)



text \<open>
  The stored width is the rounded product and need not be \<open>containerWidth * WIDTH_RATIO\<close>:
  for a page of natural size 612 x 792 at container width 1000 the target width is 900, the
  scale is the double nearest to 900 / 612, and the width is 900 + 2 ^ -43.
\<close>

lemma laid_out_612:
  "width (laid_out_hq 1000 page_612 p) = 900 + 1 / 2 ^ 43"
proof -
  have "binary64 (900 / naturalWidth page_612) = 827867578560753 / 2 ^ 49"
    and "binary64 (naturalWidth page_612 * (827867578560753 / 2 ^ 49)) = 7916483719987201 / 2 ^ 43"
    and "binary64 (naturalHeight page_612 * (827867578560753 / 2 ^ 49)) = 5122430642344659 / 2 ^ 42"
    by (simp_all only: page_612_sel binary64_612)
  from laid_out_hq_values[OF binary64_target(1) this, of p] show ?thesis
    by simp
qed

subsection \<open>The rendered flag and the layout\<close>



subsection \<open>Fit-to-width\<close>





end
